theory Spec2Isabelle
  imports Complex_Main "HOL-Library.Product_Lexorder" "HOL-Library.Multiset"
begin

section \<open>Numeric helpers of the manifest generator\<close>

text \<open>
  Python floats are modelled as exact reals: the arithmetic of the source is
  read as real arithmetic, rounding error of the binary representation is
  outside the model.
\<close>

datatype py_error = ValueError | IndexError

text \<open>Subscripting a Python list by an integer: \<open>xs[i]\<close> reads from the
  front for \<open>0 \<le> i < n\<close>, from the back for \<open>- n \<le> i < 0\<close>, and raises
  otherwise.\<close>

definition py_index :: "'a list \<Rightarrow> int \<Rightarrow> py_error + 'a" where
  "py_index xs i =
     (if 0 \<le> i \<and> i < int (length xs) then Inr (xs ! nat i)
      else if i < 0 \<and> - int (length xs) \<le> i then Inr (xs ! nat (int (length xs) + i))
      else Inl IndexError)"

text \<open>\<^verbatim>\<open>linear_quantile(vals, q)\<close> of killmegod.py (the same text in v2.py).
  The result is \<open>Inr None\<close> for the empty list.\<close>

definition linear_quantile :: "real list \<Rightarrow> real \<Rightarrow> py_error + real option" where
  "linear_quantile vals q =
     (let xs = sort vals; n = length xs in
      if n = 0 then Inr None
      else if n = 1 then (case py_index xs 0 of Inl e \<Rightarrow> Inl e | Inr v \<Rightarrow> Inr (Some v))
      else
        let h = (real n - 1) * q;
            i = \<lfloor>h\<rfloor>;
            frac = h - of_int i
        in if i + 1 < int n
           then (case py_index xs i of Inl e \<Rightarrow> Inl e | Inr a \<Rightarrow>
                 (case py_index xs (i + 1) of Inl e \<Rightarrow> Inl e | Inr b \<Rightarrow>
                    Inr (Some (a * (1 - frac) + b * frac))))
           else (case py_index xs i of Inl e \<Rightarrow> Inl e | Inr a \<Rightarrow> Inr (Some a)))"

section \<open>Strings\<close>

text \<open>
  A Python \<open>str\<close> is modelled as a \<open>string\<close> whose characters are the code
  points below 256 (Latin-1); \<open>CHR 0xE9\<close> is the letter e with acute accent.
  The character classes below are those of Python 3 on that range.
\<close>

definition py_lower_char :: "char \<Rightarrow> char" where
  "py_lower_char c =
     (let n = (of_char c :: nat) in
      if (65 \<le> n \<and> n \<le> 90) \<or> (192 \<le> n \<and> n \<le> 222 \<and> n \<noteq> 215)
      then char_of (n + 32) else c)"

definition py_lower :: "string \<Rightarrow> string" where
  "py_lower s = map py_lower_char s"

text \<open>\<open>str.isspace\<close>, also the class \<^verbatim>\<open>\s\<close> of \<open>re\<close>.\<close>

definition is_space :: "char \<Rightarrow> bool" where
  "is_space c =
     (let n = (of_char c :: nat) in
      (9 \<le> n \<and> n \<le> 13) \<or> (28 \<le> n \<and> n \<le> 32) \<or> n = 133 \<or> n = 160)"

text \<open>The class \<^verbatim>\<open>\w\<close> of \<open>re\<close>: alphanumeric characters and the underscore.\<close>

definition is_word :: "char \<Rightarrow> bool" where
  "is_word c =
     (let n = (of_char c :: nat) in
      (48 \<le> n \<and> n \<le> 57) \<or> (65 \<le> n \<and> n \<le> 90) \<or> n = 95 \<or> (97 \<le> n \<and> n \<le> 122)
      \<or> n = 170 \<or> n = 178 \<or> n = 179 \<or> n = 181 \<or> n = 185 \<or> n = 186
      \<or> (188 \<le> n \<and> n \<le> 190) \<or> (192 \<le> n \<and> n \<le> 214)
      \<or> (216 \<le> n \<and> n \<le> 246) \<or> 248 \<le> n)"

definition py_strip :: "string \<Rightarrow> string" where
  "py_strip s = rev (dropWhile is_space (rev (dropWhile is_space s)))"

text \<open>\<open>s.strip('-')\<close>.\<close>

definition strip_hyphens :: "string \<Rightarrow> string" where
  "strip_hyphens s =
     rev (dropWhile (\<lambda>c. c = CHR ''-'') (rev (dropWhile (\<lambda>c. c = CHR ''-'') s)))"

fun starts_with :: "string \<Rightarrow> string \<Rightarrow> bool" where
  "starts_with [] s = True"
| "starts_with (p # ps) [] = False"
| "starts_with (p # ps) (c # cs) = (p = c \<and> starts_with ps cs)"

text \<open>The substring test \<open>needle in hay\<close>.\<close>

fun py_in :: "string \<Rightarrow> string \<Rightarrow> bool" where
  "py_in needle [] = (needle = [])"
| "py_in needle (c # cs) = (starts_with needle (c # cs) \<or> py_in needle cs)"

text \<open>\<open>s.replace(' ', '-')\<close>.\<close>

definition replace_spaces :: "string \<Rightarrow> string" where
  "replace_spaces s = map (\<lambda>c. if c = CHR '' '' then CHR ''-'' else c) s"

section \<open>Regular expressions\<close>

text \<open>
  The patterns of the program use literals, classes, \<^verbatim>\<open>\b\<close>, alternation, an
  optional single item, and greedy or lazy repetition of a class. A matcher
  state is the character before the position (none at the start) and the
  rest of the subject. \<open>ends\<close> lists the states in which a match starting at
  the given state can end, in the order in which a backtracking matcher
  tries them; the match that \<open>re\<close> reports is the first.
\<close>

datatype rx =
    Lit char
  | Cls "char \<Rightarrow> bool"
  | Wb
  | Eps
  | Seq rx rx
  | Alt rx rx
  | Opt rx
  | Star "char \<Rightarrow> bool"
  | Plus "char \<Rightarrow> bool"
  | PlusLazy "char \<Rightarrow> bool"

type_synonym cursor = "char option \<times> string"

fun one :: "(char \<Rightarrow> bool) \<Rightarrow> cursor \<Rightarrow> cursor list" where
  "one p (prev, []) = []"
| "one p (prev, c # cs) = (if p c then [(Some c, cs)] else [])"

fun star_greedy :: "(char \<Rightarrow> bool) \<Rightarrow> char option \<Rightarrow> string \<Rightarrow> cursor list" where
  "star_greedy p prev [] = [(prev, [])]"
| "star_greedy p prev (c # cs) =
     (if p c then star_greedy p (Some c) cs @ [(prev, c # cs)] else [(prev, c # cs)])"

fun star_lazy :: "(char \<Rightarrow> bool) \<Rightarrow> char option \<Rightarrow> string \<Rightarrow> cursor list" where
  "star_lazy p prev [] = [(prev, [])]"
| "star_lazy p prev (c # cs) =
     (prev, c # cs) # (if p c then star_lazy p (Some c) cs else [])"

text \<open>\<^verbatim>\<open>\b\<close>: exactly one of the two neighbours is a word character.\<close>

fun boundary :: "cursor \<Rightarrow> bool" where
  "boundary (prev, rest) =
     ((case prev of None \<Rightarrow> False | Some c \<Rightarrow> is_word c)
       \<noteq> (case rest of [] \<Rightarrow> False | c # _ \<Rightarrow> is_word c))"

text \<open>The flag \<open>ic\<close> is \<open>re.IGNORECASE\<close>; it affects literals only.\<close>

fun ends :: "bool \<Rightarrow> rx \<Rightarrow> cursor \<Rightarrow> cursor list" where
  "ends ic (Lit l) cur =
     one (\<lambda>c. if ic then py_lower_char c = py_lower_char l else c = l) cur"
| "ends ic (Cls p) cur = one p cur"
| "ends ic Wb cur = (if boundary cur then [cur] else [])"
| "ends ic Eps cur = [cur]"
| "ends ic (Seq a b) cur = concat (map (ends ic b) (ends ic a cur))"
| "ends ic (Alt a b) cur = ends ic a cur @ ends ic b cur"
| "ends ic (Opt a) cur = ends ic a cur @ [cur]"
| "ends ic (Star p) cur = star_greedy p (fst cur) (snd cur)"
| "ends ic (Plus p) cur =
     concat (map (\<lambda>c. star_greedy p (fst c) (snd c)) (one p cur))"
| "ends ic (PlusLazy p) cur =
     concat (map (\<lambda>c. star_lazy p (fst c) (snd c)) (one p cur))"

definition match_at :: "bool \<Rightarrow> rx \<Rightarrow> cursor \<Rightarrow> cursor option" where
  "match_at ic r cur = (case ends ic r cur of [] \<Rightarrow> None | e # _ \<Rightarrow> Some e)"

text \<open>\<open>re.search\<close> as a truth value: the leftmost position with a match.\<close>

fun search_from :: "bool \<Rightarrow> rx \<Rightarrow> char option \<Rightarrow> string \<Rightarrow> bool" where
  "search_from ic r prev [] = (match_at ic r (prev, []) \<noteq> None)"
| "search_from ic r prev (c # cs) =
     (match_at ic r (prev, c # cs) \<noteq> None \<or> search_from ic r (Some c) cs)"

definition re_search :: "bool \<Rightarrow> rx \<Rightarrow> string \<Rightarrow> bool" where
  "re_search ic r s = search_from ic r None s"

text \<open>
  \<open>re.sub(pattern, repl, s)\<close> for a pattern whose matches consume at least one
  character, as all patterns substituted in the program do: scanning from
  the left, a match is replaced and the scan resumes at its end; where there
  is no match the character is copied. (A match that consumes nothing is
  treated as no match; no pattern used with \<open>sub\<close> here has one.)
\<close>

function sub_from :: "bool \<Rightarrow> rx \<Rightarrow> string \<Rightarrow> char option \<Rightarrow> string \<Rightarrow> string" where
  "sub_from ic r repl prev [] = []"
| "sub_from ic r repl prev (c # cs) =
     (case match_at ic r (prev, c # cs) of
        Some (prev', rest') \<Rightarrow>
          if length rest' < length (c # cs) then repl @ sub_from ic r repl prev' rest'
          else c # sub_from ic r repl (Some c) cs
      | None \<Rightarrow> c # sub_from ic r repl (Some c) cs)"
  by pat_completeness auto
termination
  by (relation "measure (\<lambda>(ic, r, repl, prev, s). length s)") auto

definition re_sub :: "bool \<Rightarrow> rx \<Rightarrow> string \<Rightarrow> string \<Rightarrow> string" where
  "re_sub ic r repl s = sub_from ic r repl None s"

text \<open>A string as a pattern of literals (what \<open>re.escape\<close> makes of it).\<close>

fun lits :: "string \<Rightarrow> rx" where
  "lits [] = Eps"
| "lits (c # cs) = Seq (Lit c) (lits cs)"

text \<open>\<^verbatim>\<open>\b<escaped s>\b\<close>, the word-boundary pattern built for a genre or a rule
  substring.\<close>

definition word_pattern :: "string \<Rightarrow> rx" where
  "word_pattern s = Seq Wb (Seq (lits s) Wb)"

section \<open>Feature credits and file names (killmegod.py)\<close>

text \<open>\<^verbatim>\<open>\s*\(?(?:feat\.?|ft\.?|featuring|with)\s+[^)]+?\)?\<close>\<close>

definition marker_alt :: rx where
  "marker_alt =
     Alt (Seq (lits ''feat'') (Opt (Lit CHR ''.'')))
    (Alt (Seq (lits ''ft'') (Opt (Lit CHR ''.'')))
    (Alt (lits ''featuring'') (lits ''with'')))"

definition strip_pattern :: rx where
  "strip_pattern =
     Seq (Star is_space)
    (Seq (Opt (Lit CHR ''(''))
    (Seq marker_alt
    (Seq (Plus is_space)
    (Seq (PlusLazy (\<lambda>c. c \<noteq> CHR '')''))
         (Opt (Lit CHR '')''))))))"

text \<open>\<open>strip_features(text)\<close>; \<open>None\<close> is Python's \<open>None\<close>.\<close>

definition strip_features :: "string option \<Rightarrow> string" where
  "strip_features text =
     (case text of None \<Rightarrow> []
      | Some t \<Rightarrow> if t = [] then [] else py_strip (re_sub True strip_pattern [] t))"

text \<open>The three steps applied to the artist and to the track name:
  \<open>re.sub(r'[^a-z0-9-]', '', s)\<close>, \<open>re.sub(r'-+', '-', s)\<close> and \<open>strip('-')\<close>
  after \<open>lower().replace(' ', '-')\<close>.\<close>

definition slug_char :: "char \<Rightarrow> bool" where
  "slug_char c =
     (let n = (of_char c :: nat) in
      (97 \<le> n \<and> n \<le> 122) \<or> (48 \<le> n \<and> n \<le> 57) \<or> c = CHR ''-'')"

definition safe_part :: "string \<Rightarrow> string" where
  "safe_part s =
     (let s0 = replace_spaces (py_lower (if s = [] then ''unknown'' else s));
          s1 = re_sub False (Cls (\<lambda>c. \<not> slug_char c)) [] s0
      in strip_hyphens (re_sub False (Plus (\<lambda>c. c = CHR ''-'')) ''-'' s1))"

definition generate_filename :: "string option \<Rightarrow> string option \<Rightarrow> string" where
  "generate_filename artist track_name =
     safe_part (strip_features artist) @ ''-'' @ safe_part (strip_features track_name) @ ''.json''"

section \<open>Tracks and ingestion (killmegod.py)\<close>

text \<open>
  A track is a JSON object. Each field is present with a value of its type or
  absent (\<open>None\<close>, the empty list for the list fields); a JSON \<open>null\<close> is read
  as absent and ill-typed values are not represented.
\<close>

record track =
  uri :: "string option"
  id_f :: "string option"
  name :: "string option"
  artists :: "string list"
  artist_genres :: "string list"
  genres :: "string list"
  release_year :: "int option"
  popularity :: "real option"
  danceability :: "real option"
  energy :: "real option"
  speechiness :: "real option"
  acousticness :: "real option"
  valence :: "real option"
  instrumentalness :: "real option"
  tempo :: "real option"

text \<open>\<^verbatim>\<open>\b(feat\.?|ft\.?|featuring|with)\b\<close>, searched ignoring case.\<close>

definition marker_pattern :: rx where
  "marker_pattern = Seq Wb (Seq marker_alt Wb)"

definition has_feature_marker :: "string \<Rightarrow> bool" where
  "has_feature_marker s = re_search True marker_pattern s"

text \<open>\<open>t.get("name", "") or ""\<close>\<close>

definition name_or_empty :: "track \<Rightarrow> string" where
  "name_or_empty t = (case name t of None \<Rightarrow> [] | Some n \<Rightarrow> n)"

text \<open>The body of the cleaning loop for a track that is kept.\<close>

definition clean_track :: "track \<Rightarrow> track" where
  "clean_track t =
     t\<lparr>name := Some (strip_features (Some (name_or_empty t))),
       artists := map (\<lambda>a. strip_features (Some a)) (artists t)\<rparr>"

fun cleaned_tracks :: "track list \<Rightarrow> track list" where
  "cleaned_tracks [] = []"
| "cleaned_tracks (t # ts) =
     (if has_feature_marker (name_or_empty t) then cleaned_tracks ts
      else clean_track t # cleaned_tracks ts)"

text \<open>\<open>a or b\<close> on optional strings: \<open>None\<close> and the empty string are falsy.\<close>

definition falsy :: "string option \<Rightarrow> bool" where
  "falsy x = (x = None \<or> x = Some [])"

definition py_or :: "string option \<Rightarrow> string option \<Rightarrow> string option" where
  "py_or a b = (if falsy a then b else a)"

text \<open>\<open>track.get("uri") or track.get("id")\<close>\<close>

definition tid_of :: "track \<Rightarrow> string option" where
  "tid_of t = py_or (uri t) (id_f t)"

text \<open>\<open>track.get('artist_genres') or track.get('genres')\<close>\<close>

definition tags_of :: "track \<Rightarrow> string list" where
  "tags_of t = (if artist_genres t \<noteq> [] then artist_genres t else genres t)"

definition norm_tags :: "string list \<Rightarrow> string list" where
  "norm_tags tags = map (\<lambda>g. py_strip (py_lower g)) (filter (\<lambda>g. g \<noteq> []) tags)"

text \<open>\<open>(t.get("artists") or [""])[0]\<close>\<close>

definition first_artist :: "track \<Rightarrow> string" where
  "first_artist t = (case artists t of [] \<Rightarrow> [] | a # _ \<Rightarrow> a)"

text \<open>\<open>((t.get("artists") or [""])[0] or "").strip().lower()\<close>, the key under
  which an artist is recorded as used.\<close>

definition artist_key :: "track \<Rightarrow> string" where
  "artist_key t = py_lower (py_strip (first_artist t))"

section \<open>Matching and rules (killmegod.py)\<close>

text \<open>\<open>genre_match\<close>; the table \<open>EXCLUSIONS\<close> is a parameter.\<close>

definition excluded :: "(string \<rightharpoonup> string list) \<Rightarrow> string \<Rightarrow> string list \<Rightarrow> bool" where
  "excluded EXCLUSIONS search_genre track_genres =
     (case EXCLUSIONS search_genre of None \<Rightarrow> False
      | Some exs \<Rightarrow>
          list_ex (\<lambda>exclusion.
            list_ex (\<lambda>g. py_in (py_lower exclusion) (py_lower g)) track_genres) exs)"

definition genre_match :: "(string \<rightharpoonup> string list) \<Rightarrow> string \<Rightarrow> string list \<Rightarrow> bool" where
  "genre_match EXCLUSIONS search_genre track_genres =
     (if excluded EXCLUSIONS search_genre track_genres then False
      else
        let sg = py_strip (py_lower search_genre); pat = word_pattern sg in
        list_ex (\<lambda>tg. let t = py_strip (py_lower tg) in t = sg \<or> re_search False pat t)
          track_genres)"

text \<open>A rule record of \<open>GENRE_RULES\<close>; an absent list is the empty list, an
  absent bound is \<open>None\<close>.\<close>

record rule =
  require_artist_genres_any :: "string list"
  deny_artist_genres_any :: "string list"
  deny_name_contains :: "string list"
  deny_artist_contains :: "string list"
  whitelist_artists :: "string list"
  boost_artist_contains :: "string list"
  allow_artist_genres_any :: "string list"
  min_year :: "int option"
  max_year :: "int option"
  popularity_min :: "real option"
  popularity_max :: "real option"

text \<open>The gates of \<open>passes_rules\<close>, in the order of the source. \<open>a_gen\<close> is the
  list of lower-cased tags, \<open>artist\<close> and \<open>nm\<close> the lower-cased primary artist
  and title.\<close>

definition deny_gate_hit :: "rule \<Rightarrow> string list \<Rightarrow> bool" where
  "deny_gate_hit rules a_gen =
     list_ex (\<lambda>d. list_ex (\<lambda>g. re_search False (word_pattern (py_lower d)) g) a_gen)
       (deny_artist_genres_any rules)"

definition require_gate_found :: "rule \<Rightarrow> string list \<Rightarrow> bool" where
  "require_gate_found rules a_gen =
     list_ex (\<lambda>r. list_ex (\<lambda>g. re_search False (word_pattern (py_lower r)) g) a_gen)
       (require_artist_genres_any rules)"

definition name_denied :: "rule \<Rightarrow> string \<Rightarrow> bool" where
  "name_denied rules nm = list_ex (\<lambda>t. py_in (py_lower t) nm) (deny_name_contains rules)"

definition artist_denied :: "rule \<Rightarrow> string \<Rightarrow> bool" where
  "artist_denied rules artist =
     list_ex (\<lambda>t. py_in (py_lower t) artist) (deny_artist_contains rules)"

definition whitelisted :: "rule \<Rightarrow> string \<Rightarrow> bool" where
  "whitelisted rules artist =
     list_ex (\<lambda>w. py_in (py_lower w) artist) (whitelist_artists rules)"

text \<open>\<open>y = int(y) if y else None\<close>, then the bounds, each skipped when falsy.\<close>

definition year_gate_ok :: "rule \<Rightarrow> track \<Rightarrow> bool" where
  "year_gate_ok rules t =
     (case release_year t of None \<Rightarrow> True
      | Some y \<Rightarrow>
          if y = 0 then True
          else if (case min_year rules of None \<Rightarrow> False | Some m \<Rightarrow> m \<noteq> 0 \<and> y < m) then False
          else if (case max_year rules of None \<Rightarrow> False | Some m \<Rightarrow> m \<noteq> 0 \<and> y > m) then False
          else True)"

text \<open>\<open>float(track.get("popularity", 0) or 0)\<close>\<close>

definition pop_of :: "track \<Rightarrow> real" where
  "pop_of t = (case popularity t of None \<Rightarrow> 0 | Some p \<Rightarrow> p)"

definition popularity_gate_ok :: "rule \<Rightarrow> track \<Rightarrow> bool" where
  "popularity_gate_ok rules t =
     (if (case popularity_min rules of None \<Rightarrow> False | Some m \<Rightarrow> m \<noteq> 0 \<and> pop_of t < m)
      then False
      else if (case popularity_max rules of None \<Rightarrow> False | Some m \<Rightarrow> m \<noteq> 0 \<and> pop_of t > m)
      then False
      else True)"

definition passes_rules :: "(string \<rightharpoonup> rule) \<Rightarrow> string \<Rightarrow> track \<Rightarrow> bool" where
  "passes_rules GENRE_RULES target_genre t =
     (case GENRE_RULES (py_lower target_genre) of None \<Rightarrow> True
      | Some rules \<Rightarrow>
          let a_gen = map py_lower (tags_of t);
              artist = py_lower (first_artist t);
              nm = py_lower (name_or_empty t)
          in if deny_gate_hit rules a_gen then False
             else if require_artist_genres_any rules \<noteq> [] \<and> \<not> require_gate_found rules a_gen
             then False
             else if name_denied rules nm then False
             else if artist_denied rules artist then False
             else if whitelisted rules artist then True
             else if \<not> year_gate_ok rules t then False
             else popularity_gate_ok rules t)"


definition blank_track :: track where
  "blank_track =
     \<lparr>uri = None, id_f = None, name = None, artists = [], artist_genres = [], genres = [],
      release_year = None, popularity = None, danceability = None, energy = None,
      speechiness = None, acousticness = None, valence = None, instrumentalness = None,
      tempo = None\<rparr>"



section \<open>The slug, stated directly\<close>



text \<open>The artist of the scenario: "Beyonce" with an acute accent on the last
  letter, followed by a space.\<close>

definition beyonce :: string where
  "beyonce = [CHR ''B'', CHR ''e'', CHR ''y'', CHR ''o'', CHR ''n'', CHR ''c'', CHR 0xE9, CHR '' '']"

text \<open>Tracks without any feature credit: a title and an artist that contain the
  letters "ft" followed by a space.\<close>

definition one_more_time_track :: track where
  "one_more_time_track =
     blank_track\<lparr>uri := Some ''spotify:track:omt'', name := Some ''One More Time'',
       artists := [''Daft Punk''], artist_genres := [''french house'']\<rparr>"

definition lift_me_up_track :: track where
  "lift_me_up_track =
     blank_track\<lparr>uri := Some ''spotify:track:lmu'', name := Some ''Lift Me Up'',
       artists := [''Rihanna''], artist_genres := [''pop'']\<rparr>"

section \<open>Scoring and seed selection (killmegod.py)\<close>

text \<open>
  The configuration: the tables \<open>EXCLUSIONS\<close>, \<open>GENRE_RULES\<close> and
  \<open>TRACK_DENY_URIS\<close>, \<open>CONFIG['seeds_per_genre']\<close>, and the sequence of values
  that \<open>random.random()\<close> returns after \<open>random.seed(CONFIG['random_seed'])\<close>
  (the generator itself is not modelled: \<open>random_draws cfg i\<close> is its
  \<open>i\<close>-th value). The scoring weights are the constants of \<open>CONFIG\<close>.
\<close>

record config =
  exclusions :: "string \<rightharpoonup> string list"
  genre_rules :: "string \<rightharpoonup> rule"
  track_deny_uris :: "string set"
  seeds_per_genre :: nat
  random_draws :: "nat \<Rightarrow> real"

definition pop_component :: "real \<Rightarrow> real \<Rightarrow> real \<Rightarrow> real \<Rightarrow> real \<Rightarrow> real" where
  "pop_component pop center plateau width weight =
     (let delta = \<bar>pop - center\<bar>;
          score = (if delta \<le> plateau then 1
                   else if delta \<ge> width then 0
                   else 1 - (delta - plateau) / (width - plateau))
      in weight * score)"

definition bad_tokens :: "string list" where
  "bad_tokens = [''dance pop'', ''pop'', ''electropop'', ''soundtrack'']"

text \<open>\<open>proto_score(target_genre, t)\<close>; \<open>draw\<close> is the value of \<open>random.random()\<close>
  consumed by the call.\<close>

definition proto_score :: "config \<Rightarrow> string \<Rightarrow> track \<Rightarrow> real \<Rightarrow> real" where
  "proto_score cfg target_genre t draw =
     (let tags = norm_tags (tags_of t);
          target = py_lower target_genre;
          arts = map py_lower (artists t);
          exact = (if list_ex (\<lambda>g. g = target) tags then 5 / 2 else 0);
          rules = genre_rules cfg target;
          whitelist = (case rules of None \<Rightarrow> [] | Some r \<Rightarrow> map py_lower (whitelist_artists r));
          boost = (case rules of None \<Rightarrow> [] | Some r \<Rightarrow> map py_lower (boost_artist_contains r));
          whitelist_bonus =
            (if list_ex (\<lambda>a. list_ex (\<lambda>w. py_in w a) whitelist) arts then 3 / 2 else 0);
          boost_bonus =
            (if list_ex (\<lambda>a. list_ex (\<lambda>b. py_in b a) boost) arts then 4 / 5 else 0);
          pop_score = pop_component (pop_of t) 69 5 55 (1 / 2);
          contam =
            (if list_ex (\<lambda>bt. list_ex (\<lambda>g. py_in bt g) tags) bad_tokens then - (3 / 10) else 0);
          allow = (case rules of None \<Rightarrow> [] | Some r \<Rightarrow> map py_lower (allow_artist_genres_any r));
          deny = (case rules of None \<Rightarrow> [] | Some r \<Rightarrow> map py_lower (deny_artist_genres_any r));
          match_bonus = min (6 / 5) ((2 / 5) * real (length (filter (\<lambda>g. g \<in> set tags) allow)));
          deny_penalty = (if list_ex (\<lambda>d. d \<in> set tags) deny then - (1 / 2) else 0);
          noise = draw * (1 / 20)
      in exact + whitelist_bonus + boost_bonus + pop_score + contam + match_bonus
         + deny_penalty + noise)"

text \<open>The index \<open>tracks_by_genre\<close>: a dictionary from a normalised tag to the
  tracks carrying it, in insertion order.\<close>

type_synonym index = "(string \<times> track list) list"

fun bucket_append :: "string \<Rightarrow> track \<Rightarrow> index \<Rightarrow> index" where
  "bucket_append k t [] = [(k, [t])]"
| "bucket_append k t ((k', b) # rest) =
     (if k = k' then (k', b @ [t]) # rest else (k', b) # bucket_append k t rest)"

definition in_deny :: "config \<Rightarrow> track \<Rightarrow> bool" where
  "in_deny cfg t = (case tid_of t of None \<Rightarrow> False | Some s \<Rightarrow> s \<in> track_deny_uris cfg)"

definition index_track :: "config \<Rightarrow> index \<Rightarrow> track \<Rightarrow> index" where
  "index_track cfg idx t =
     (if in_deny cfg t then idx
      else foldl (\<lambda>i tg. bucket_append tg t i) idx (norm_tags (tags_of t)))"

definition index_tracks :: "config \<Rightarrow> track list \<Rightarrow> index" where
  "index_tracks cfg tracks = foldl (index_track cfg) [] tracks"

text \<open>The candidates of a genre: every track of every bucket whose key the
  genre's word-boundary pattern matches, that has an identifier and passes
  \<open>genre_match\<close> and \<open>passes_rules\<close>.\<close>

definition admitted :: "config \<Rightarrow> string \<Rightarrow> track \<Rightarrow> bool" where
  "admitted cfg genre t =
     (\<not> falsy (tid_of t)
      \<and> genre_match (exclusions cfg) genre (norm_tags (tags_of t))
      \<and> passes_rules (genre_rules cfg) genre t)"

definition gather_candidates :: "config \<Rightarrow> index \<Rightarrow> string \<Rightarrow> track list" where
  "gather_candidates cfg idx genre =
     concat (map (\<lambda>(index_key, bucket).
        if re_search False (word_pattern (py_lower genre)) index_key
        then filter (admitted cfg genre) bucket else []) idx)"

text \<open>The per-genre de-duplication by identifier and by primary artist.\<close>

fun dedupe :: "track list \<Rightarrow> string option set \<Rightarrow> string set \<Rightarrow> track list" where
  "dedupe [] seen_ids seen_artists = []"
| "dedupe (t # ts) seen_ids seen_artists =
     (let tid = tid_of t; artist = py_strip (first_artist t); artist_l = py_lower artist in
      if falsy tid \<or> artist = [] then dedupe ts seen_ids seen_artists
      else if tid \<in> seen_ids \<or> artist_l \<in> seen_artists then dedupe ts seen_ids seen_artists
      else t # dedupe ts (insert tid seen_ids) (insert artist_l seen_artists))"

text \<open>\<open>unique.sort(key=lambda t: proto_score(genre, t), reverse=True)\<close>: the key
  of each element is computed once, in list order, each consuming one draw;
  the sort is stable.\<close>

definition score_keys :: "config \<Rightarrow> string \<Rightarrow> nat \<Rightarrow> track list \<Rightarrow> real list" where
  "score_keys cfg genre d ts =
     map (\<lambda>(i, t). proto_score cfg genre t (random_draws cfg (d + i))) (enumerate 0 ts)"

definition sort_by_score :: "config \<Rightarrow> string \<Rightarrow> nat \<Rightarrow> track list \<Rightarrow> track list" where
  "sort_by_score cfg genre d ts =
     map snd (sort_key (\<lambda>p. - fst p) (zip (score_keys cfg genre d ts) ts))"

text \<open>The final pick: walk the list until \<open>k\<close> tracks are taken, skipping a
  track whose identifier or artist is already used globally.\<close>

fun pick :: "nat \<Rightarrow> track list \<Rightarrow> track list \<times> string option set \<times> string set
    \<Rightarrow> track list \<times> string option set \<times> string set" where
  "pick k [] (top_k, ids, arts) = (top_k, ids, arts)"
| "pick k (t # ts) (top_k, ids, arts) =
     (if length top_k \<ge> k then (top_k, ids, arts)
      else if tid_of t \<in> ids \<or> artist_key t \<in> arts then pick k ts (top_k, ids, arts)
      else pick k ts (top_k @ [t], insert (tid_of t) ids, insert (artist_key t) arts))"

record sel_state =
  results :: "string \<rightharpoonup> track list"
  global_seen_ids :: "string option set"
  global_seen_artists :: "string set"
  draws :: nat

definition init_state :: sel_state where
  "init_state = \<lparr>results = Map.empty, global_seen_ids = {}, global_seen_artists = {}, draws = 0\<rparr>"

text \<open>One iteration of the loop over \<open>PLAYABLE_GENRES\<close>.\<close>

definition process_genre :: "config \<Rightarrow> index \<Rightarrow> sel_state \<Rightarrow> string \<Rightarrow> sel_state" where
  "process_genre cfg idx st genre =
     (let candidates = gather_candidates cfg idx genre in
      if candidates = [] then st\<lparr>results := (results st)(genre \<mapsto> [])\<rparr>
      else
        let unique = dedupe candidates {} {} in
        if unique = [] then st\<lparr>results := (results st)(genre \<mapsto> [])\<rparr>
        else
          let sorted = sort_by_score cfg genre (draws st) unique;
              (top_k, ids, arts) =
                pick (seeds_per_genre cfg) sorted
                  ([], global_seen_ids st, global_seen_artists st)
          in \<lparr>results = (results st)(genre \<mapsto> top_k),
              global_seen_ids = ids,
              global_seen_artists = arts,
              draws = draws st + length unique\<rparr>)"

definition select_playable :: "config \<Rightarrow> index \<Rightarrow> string list \<Rightarrow> sel_state" where
  "select_playable cfg idx playable = foldl (process_genre cfg idx) init_state playable"

text \<open>The pool a genre picks from: its filtered and de-duplicated candidates
  that the global sets of the state do not exclude.\<close>

definition remaining_pool :: "config \<Rightarrow> index \<Rightarrow> sel_state \<Rightarrow> string \<Rightarrow> track list" where
  "remaining_pool cfg idx st genre =
     filter (\<lambda>t. tid_of t \<notin> global_seen_ids st \<and> artist_key t \<notin> global_seen_artists st)
       (dedupe (gather_candidates cfg idx genre) {} {})"

section \<open>The genre tree\<close>

text \<open>A node of \<open>GENRE_TREE\<close>: the value of \<open>"_seeds"\<close> when it is a string, and
  the dictionary \<open>"subgenres"\<close>.\<close>

datatype node = Node (seeds_key: "string option") (subgenres: "(string \<times> node) list")

type_synonym tree = "(string \<times> node) list"

fun walk_playable :: "node \<Rightarrow> string list" where
  "walk_playable (Node seed subs) =
     (case seed of None \<Rightarrow> []
      | Some s \<Rightarrow> if s \<noteq> ''__synthetic__'' then [s] else [])
     @ concat (map (\<lambda>p. walk_playable (snd p)) subs)"

text \<open>"unique preserve order": the first occurrence of each name is kept.\<close>

fun unique_ordered :: "string list \<Rightarrow> string list \<Rightarrow> string list" where
  "unique_ordered seen [] = []"
| "unique_ordered seen (g # gs) =
     (if g \<in> set seen then unique_ordered seen gs else g # unique_ordered (g # seen) gs)"

definition gather_playable_genres :: "tree \<Rightarrow> string list" where
  "gather_playable_genres t =
     unique_ordered [] (concat (map (\<lambda>p. walk_playable (snd p)) t))"

section \<open>Seeds of the synthetic parent nodes (killmegod.py)\<close>

definition synthetic :: string where
  "synthetic = ''__synthetic__''"

text \<open>\<open>gather_synthetic_genres\<close>: for each node marked synthetic that has a
  direct child with a real seed key, its path, its name and those keys.\<close>

definition children_seeds_of :: "(string \<times> node) list \<Rightarrow> string list" where
  "children_seeds_of subs =
     concat (map (\<lambda>p. case seeds_key (snd p) of None \<Rightarrow> []
                        | Some s \<Rightarrow> if s \<noteq> synthetic then [s] else []) subs)"

fun walk_synthetic :: "node \<Rightarrow> string \<Rightarrow> string \<Rightarrow> (string \<times> string \<times> string list) list" where
  "walk_synthetic (Node seed subs) node_path node_name =
     (if seed = Some synthetic \<and> children_seeds_of subs \<noteq> []
      then [(node_path, node_name, children_seeds_of subs)] else [])
     @ concat (map (\<lambda>p. walk_synthetic (snd p)
                 (if node_path = [] then fst p else node_path @ ''/'' @ fst p) (fst p)) subs)"

definition gather_synthetic_genres :: "tree \<Rightarrow> (string \<times> string \<times> string list) list" where
  "gather_synthetic_genres t = concat (map (\<lambda>p. walk_synthetic (snd p) (fst p) (fst p)) t)"

definition FEATURE_FIELDS :: "string list" where
  "FEATURE_FIELDS = [''danceability'', ''energy'', ''speechiness'', ''acousticness'',
     ''valence'', ''popularity'', ''instrumentalness'']"

text \<open>\<open>t.get(f)\<close> for a feature field.\<close>

definition feature_of :: "string \<Rightarrow> track \<Rightarrow> real option" where
  "feature_of f t =
     (if f = ''danceability'' then danceability t
      else if f = ''energy'' then energy t
      else if f = ''speechiness'' then speechiness t
      else if f = ''acousticness'' then acousticness t
      else if f = ''valence'' then valence t
      else if f = ''popularity'' then popularity t
      else if f = ''instrumentalness'' then instrumentalness t
      else None)"

definition clamp :: "real \<Rightarrow> real \<Rightarrow> real \<Rightarrow> real" where
  "clamp x lo hi = (if x < lo then lo else if x > hi then hi else x)"

text \<open>\<open>CONFIG['min_bpm']\<close> is 70 and \<open>CONFIG['max_bpm']\<close> is 200.\<close>

definition tempo_to_norm :: "real \<Rightarrow> real" where
  "tempo_to_norm bpm = clamp ((bpm - 70) / (200 - 70)) 0 1"

text \<open>The value a track contributes under a key of the aggregate: a feature
  field, or the normalised tempo under \<open>"tempo_norm"\<close>.\<close>

definition track_value :: "string \<Rightarrow> track \<Rightarrow> real option" where
  "track_value f t =
     (if f = ''tempo_norm'' then map_option tempo_to_norm (tempo t) else feature_of f t)"

definition present :: "'a option list \<Rightarrow> 'a list" where
  "present vs = concat (map (\<lambda>v. case v of None \<Rightarrow> [] | Some x \<Rightarrow> [x]) vs)"

definition results_get :: "(string \<rightharpoonup> track list) \<Rightarrow> string \<Rightarrow> track list" where
  "results_get res g = (case res g of None \<Rightarrow> [] | Some l \<Rightarrow> l)"

text \<open>\<open>compute_aggregate_features\<close>: the mean of each key over the seeds of the
  children; the result is the list of the keys that have a value (empty
  also where the source returns \<open>None\<close>: the caller tests it for truth).\<close>

definition compute_aggregate_features ::
    "(string \<rightharpoonup> track list) \<Rightarrow> string list \<Rightarrow> (string \<times> real) list" where
  "compute_aggregate_features res child_genres =
     (let all_tracks = concat (map (results_get res) child_genres) in
      concat (map (\<lambda>f.
        let vals = present (map (track_value f) all_tracks) in
        if vals = [] then [] else [(f, sum_list vals / real (length vals))])
        (FEATURE_FIELDS @ [''tempo_norm''])))"

text \<open>\<open>feature_distance\<close>; \<open>None\<close> is \<open>float('inf')\<close>.\<close>

definition feature_distance :: "track \<Rightarrow> (string \<times> real) list \<Rightarrow> real option" where
  "feature_distance t target_features =
     (let sq = concat (map (\<lambda>f.
                 case (map_of target_features f, track_value f t) of
                   (Some target_val, Some track_val) \<Rightarrow> [(track_val - target_val)\<^sup>2]
                 | _ \<Rightarrow> [])
                 (FEATURE_FIELDS @ [''tempo_norm'']))
      in if sq = [] then None else Some (sqrt (sum_list sq / real (length sq))))"

record cand =
  cand_track :: track
  child_genre :: string
  distance :: "real option"

definition synthetic_candidates ::
    "config \<Rightarrow> index \<Rightarrow> string option set \<Rightarrow> (string \<times> real) list \<Rightarrow> string list \<Rightarrow> cand list" where
  "synthetic_candidates cfg idx ids aggregate child_seeds =
     concat (map (\<lambda>child.
       concat (map (\<lambda>(index_key, bucket).
         if re_search False (word_pattern (py_lower child)) index_key
         then map (\<lambda>t. \<lparr>cand_track = t, child_genre = child,
                         distance = feature_distance t aggregate\<rparr>)
                (filter (\<lambda>t. tid_of t \<notin> ids \<and> admitted cfg child t) bucket)
         else []) idx)) child_seeds)"

fun dedupe_candidates :: "cand list \<Rightarrow> string option set \<Rightarrow> cand list" where
  "dedupe_candidates [] seen = []"
| "dedupe_candidates (c # cs) seen =
     (if tid_of (cand_track c) \<in> seen then dedupe_candidates cs seen
      else c # dedupe_candidates cs (insert (tid_of (cand_track c)) seen))"

text \<open>The sort key of a distance: infinity after every real.\<close>

definition distance_key :: "real option \<Rightarrow> bool \<times> real" where
  "distance_key d = (case d of None \<Rightarrow> (True, 0) | Some x \<Rightarrow> (False, x))"

text \<open>First pass: for each child in turn, the nearest candidate of that child
  that is not used globally is taken and removed from the list.\<close>

fun first_pass :: "string list \<Rightarrow> cand list \<Rightarrow> track list \<times> string option set \<times> string set
    \<Rightarrow> cand list \<times> track list \<times> string option set \<times> string set" where
  "first_pass [] cands (selected, ids, arts) = (cands, selected, ids, arts)"
| "first_pass (child # rest) cands (selected, ids, arts) =
     (if length selected \<ge> 5 then (cands, selected, ids, arts)
      else
        case find (\<lambda>c. child_genre c = child \<and> tid_of (cand_track c) \<notin> ids
                        \<and> artist_key (cand_track c) \<notin> arts) cands of
          None \<Rightarrow> first_pass rest cands (selected, ids, arts)
        | Some c \<Rightarrow>
            first_pass rest (remove1 c cands)
              (selected @ [cand_track c], insert (tid_of (cand_track c)) ids,
               insert (artist_key (cand_track c)) arts))"

definition process_synthetic ::
    "config \<Rightarrow> index \<Rightarrow> sel_state \<Rightarrow> string \<times> string \<times> string list \<Rightarrow> sel_state" where
  "process_synthetic cfg idx st entry =
     (case entry of (full_path, display_name, child_seeds) \<Rightarrow>
      let aggregate_features = compute_aggregate_features (results st) child_seeds in
      if aggregate_features = [] then st\<lparr>results := (results st)(display_name \<mapsto> [])\<rparr>
      else
        let candidates =
              synthetic_candidates cfg idx (global_seen_ids st) aggregate_features child_seeds;
            unique_candidates =
              sort_key (\<lambda>c. distance_key (distance c)) (dedupe_candidates candidates {});
            (remaining, selected1, ids1, arts1) =
              first_pass child_seeds unique_candidates
                ([], global_seen_ids st, global_seen_artists st);
            (selected, ids, arts) = pick 5 (map cand_track remaining) (selected1, ids1, arts1)
        in st\<lparr>results := (results st)(display_name \<mapsto> selected),
               global_seen_ids := ids, global_seen_artists := arts\<rparr>)"

text \<open>The whole selection: the index over the cleaned tracks, the loop over
  the playable genres, then the loop over the synthetic nodes.\<close>

definition select_seeds :: "config \<Rightarrow> tree \<Rightarrow> track list \<Rightarrow> sel_state" where
  "select_seeds cfg t tracks =
     (let idx = index_tracks cfg tracks;
          st = select_playable cfg idx (gather_playable_genres t)
      in foldl (process_synthetic cfg idx) st (gather_synthetic_genres t))"

section \<open>The uniqueness invariant\<close>

text \<open>
  \<open>unique_inv\<close>: every selected track is recorded in the global sets, and the
  seed lists of two different keys of \<open>results\<close> share neither an identifier
  nor an artist key. \<open>extends\<close>: the global sets grow by exactly the
  identifiers and artist keys of the tracks \<open>new\<close>, none of which was in them.
\<close>

definition unique_inv :: "sel_state \<Rightarrow> bool" where
  "unique_inv st =
     ((\<forall>g l t. results st g = Some l \<and> t \<in> set l \<longrightarrow>
          tid_of t \<in> global_seen_ids st \<and> artist_key t \<in> global_seen_artists st)
      \<and> (\<forall>g g' l l' t t'. g \<noteq> g' \<and> results st g = Some l \<and> results st g' = Some l'
            \<and> t \<in> set l \<and> t' \<in> set l' \<longrightarrow>
          tid_of t \<noteq> tid_of t' \<and> artist_key t \<noteq> artist_key t'))"

definition extends :: "string option set \<times> string set \<Rightarrow> track list
    \<Rightarrow> string option set \<times> string set \<Rightarrow> bool" where
  "extends before new after =
     (fst after = fst before \<union> tid_of ` set new
      \<and> snd after = snd before \<union> artist_key ` set new
      \<and> (\<forall>t \<in> set new. tid_of t \<notin> fst before \<and> artist_key t \<notin> snd before))"

section \<open>A small run\<close>

text \<open>
  A tree with one root, a synthetic node under it and two leaves; four tracks
  without audio features; one seed per genre. The rock track and the first
  punk track are by the same artist.
\<close>

definition demo_cfg :: config where
  "demo_cfg =
     \<lparr>exclusions = [''punk'' \<mapsto> [''pop punk'', ''dance'', ''edm'', ''electro'', ''big room'']],
      genre_rules = Map.empty, track_deny_uris = {}, seeds_per_genre = 1,
      random_draws = (\<lambda>i. 0)\<rparr>"

definition demo_tree :: tree where
  "demo_tree =
     [(''rock'', Node (Some ''rock'')
        [(''Heavy'', Node (Some ''__synthetic__'')
           [(''punk'', Node (Some ''punk'') []), (''metal'', Node (Some ''metal'') [])])])]"

definition track_a :: track where
  "track_a = blank_track\<lparr>uri := Some ''u:a'', name := Some ''A'', artists := [''Alpha''],
     artist_genres := [''rock'']\<rparr>"

definition track_b :: track where
  "track_b = blank_track\<lparr>uri := Some ''u:b'', name := Some ''B'', artists := [''Beta''],
     artist_genres := [''punk'']\<rparr>"

definition track_c :: track where
  "track_c = blank_track\<lparr>uri := Some ''u:c'', name := Some ''C'', artists := [''Gamma''],
     artist_genres := [''metal'']\<rparr>"

definition track_d :: track where
  "track_d = blank_track\<lparr>uri := Some ''u:d'', name := Some ''D'', artists := [''alpha ''],
     artist_genres := [''punk'']\<rparr>"

definition demo_tracks :: "track list" where
  "demo_tracks = [track_a, track_d, track_b, track_c]"

definition demo_index :: index where
  "demo_index = index_tracks demo_cfg demo_tracks"

text \<open>The same configuration with five seeds per genre, the value of \<open>CONFIG\<close>.\<close>

definition demo_cfg5 :: config where
  "demo_cfg5 = demo_cfg\<lparr>seeds_per_genre := 5\<rparr>"

section \<open>Feature summaries and the manifest (killmegod.py)\<close>

text \<open>\<open>median_sorted\<close> and \<open>median\<close>; the empty list raises \<open>ValueError\<close>.\<close>

definition median_sorted :: "real list \<Rightarrow> py_error + real" where
  "median_sorted vals =
     (let n = length vals; mid = n div 2 in
      if n = 0 then Inl ValueError
      else if n mod 2 = 1 then Inr (vals ! mid)
      else Inr ((vals ! (mid - 1) + vals ! mid) / 2))"

definition median :: "real list \<Rightarrow> py_error + real" where
  "median vals = median_sorted (sort vals)"

text \<open>
  \<open>sround(x, 2)\<close>, that is \<open>round(float(x), 2)\<close>: the nearest multiple of 0.01,
  a tie going to the even one. (On exact reals; a decimal tie that a binary
  float does not hold exactly is rounded by Python from the float's value.)
\<close>

definition round_half_even :: "real \<Rightarrow> int" where
  "round_half_even x =
     (let f = \<lfloor>x\<rfloor>; d = x - of_int f in
      if d < 1 / 2 then f else if d > 1 / 2 then f + 1 else if even f then f else f + 1)"

definition sround :: "real \<Rightarrow> real" where
  "sround x = of_int (round_half_even (x * 100)) / 100"

text \<open>\<open>int(x)\<close> of a float: truncation towards zero.\<close>

definition py_int :: "real \<Rightarrow> int" where
  "py_int x = (if x \<ge> 0 then \<lfloor>x\<rfloor> else \<lceil>x\<rceil>)"

text \<open>A feature dictionary is a list of keys with their values, \<open>None\<close> for
  \<open>null\<close>; the order of its keys is not part of the model (entries are listed
  in the order of \<open>FEATURE_FIELDS\<close>). Every call of \<open>median\<close> below is guarded
  by a test that its argument is not empty.\<close>

type_synonym features = "(string \<times> real option) list"

definition median_entry :: "string \<Rightarrow> real list \<Rightarrow> features" where
  "median_entry k vals =
     (if vals = [] then []
      else case median vals of Inl e \<Rightarrow> [] | Inr m \<Rightarrow> [(k, Some (sround m))])"

definition median_year_of :: "int list \<Rightarrow> int option" where
  "median_year_of years =
     (if years = [] then None
      else case median_sorted (map of_int (sort years)) of
             Inl e \<Rightarrow> None | Inr m \<Rightarrow> Some (py_int m))"

definition compute_features_from_tracks :: "track list \<Rightarrow> features \<times> int option" where
  "compute_features_from_tracks seed_tracks =
     (let feat = concat (map (\<lambda>f. median_entry f (present (map (feature_of f) seed_tracks)))
                   FEATURE_FIELDS);
          tempos = present (map tempo seed_tracks);
          tempo_feat =
            (if tempos = [] then []
             else case median tempos of Inl e \<Rightarrow> []
                  | Inr med_bpm \<Rightarrow> [(''tempo_bpm'', Some (sround med_bpm)),
                                   (''tempo_norm'', Some (sround (tempo_to_norm med_bpm)))]);
          years = present (map release_year seed_tracks)
      in (feat @ tempo_feat, median_year_of years))"

record seed_payload =
  p_uri :: "string option"
  p_name :: "string option"
  p_artist :: string
  p_popularity :: real
  p_filename :: string

text \<open>A built node: an absent key \<open>"seeds"\<close>, \<open>"features"\<close> or \<open>"subgenres"\<close> is
  the empty list, an absent \<open>"median_year"\<close> is \<open>None\<close>.\<close>

datatype mnode = MNode (m_seeds: "seed_payload list") (m_features: features)
  (m_median_year: "int option") (m_subgenres: "(string \<times> mnode) list")

definition feature_keys :: "string list" where
  "feature_keys = FEATURE_FIELDS @ [''tempo_bpm'', ''tempo_norm'']"

text \<open>The values that the children carry under a key: a child without the
  key contributes nothing, and neither does a \<open>null\<close>.\<close>

definition child_values :: "string \<Rightarrow> mnode list \<Rightarrow> real list" where
  "child_values k children =
     present (concat (map (\<lambda>c. case map_of (m_features c) k of None \<Rightarrow> [] | Some v \<Rightarrow> [v])
                        children))"

definition aggregate_features_from_children ::
    "(string \<times> mnode) list \<Rightarrow> features \<times> int option" where
  "aggregate_features_from_children children_nodes =
     (let children = map snd children_nodes;
          keys = unique_ordered [] (concat (map (\<lambda>c. map fst (m_features c)) children));
          out_feat = concat (map (\<lambda>k. median_entry k (child_values k children)) keys);
          years = present (map m_median_year children)
      in (out_feat, median_year_of years))"

text \<open>\<open>setdefault(k, None)\<close> for every feature key, when the dictionary is not
  empty.\<close>

definition with_defaults :: "features \<Rightarrow> features" where
  "with_defaults feat =
     (if feat = [] then []
      else feat @ map (\<lambda>k. (k, None)) (filter (\<lambda>k. k \<notin> set (map fst feat)) feature_keys))"

definition payload_of :: "track \<Rightarrow> seed_payload" where
  "payload_of t =
     (let artist_name = (case artists t of [] \<Rightarrow> ''Unknown'' | a # _ \<Rightarrow> a) in
      \<lparr>p_uri = uri t, p_name = name t, p_artist = artist_name,
       p_popularity = pop_of t,
       p_filename = generate_filename (Some artist_name) (name t)\<rparr>)"

text \<open>The seeds a node looks up: under its seed key, or for a synthetic node
  under the display name recorded for its path.\<close>

definition node_seeds :: "(string \<rightharpoonup> track list) \<Rightarrow> (string \<rightharpoonup> string) \<Rightarrow> string option
    \<Rightarrow> string \<Rightarrow> track list" where
  "node_seeds res names seed genre_path =
     (case seed of None \<Rightarrow> []
      | Some k \<Rightarrow>
          results_get res
            (if k = synthetic
             then (case names genre_path of None \<Rightarrow> genre_path | Some n \<Rightarrow> n)
             else k))"

text \<open>The features and the median year of a node, from its seeds if they give
  any feature, else from its built children.\<close>

definition node_summary :: "track list \<Rightarrow> (string \<times> mnode) list \<Rightarrow> features \<times> int option" where
  "node_summary seeds built_sub =
     (let (node_features, node_median_year) =
            (if seeds = [] then ([], None) else compute_features_from_tracks seeds)
      in if node_features = [] \<and> built_sub \<noteq> []
         then let (child_feat, child_year) = aggregate_features_from_children built_sub
              in (if child_feat \<noteq> [] then child_feat else node_features,
                  if child_year \<noteq> None then child_year else node_median_year)
         else (node_features, node_median_year))"

fun build_manifest :: "(string \<rightharpoonup> track list) \<Rightarrow> (string \<rightharpoonup> string) \<Rightarrow> node \<Rightarrow> string
    \<Rightarrow> mnode" where
  "build_manifest res names (Node seed subs) genre_path =
     (let built_sub =
            map (\<lambda>p. (fst p, build_manifest res names (snd p)
                   (if genre_path = [] then fst p else genre_path @ ''/'' @ fst p))) subs;
          seeds = node_seeds res names seed genre_path;
          summary = node_summary seeds built_sub
      in MNode (map payload_of seeds) (with_defaults (fst summary)) (snd summary) built_sub)"

text \<open>\<open>synthetic_path_to_name\<close>: a later entry for a path replaces an earlier
  one.\<close>

definition synthetic_path_to_name :: "tree \<Rightarrow> (string \<rightharpoonup> string)" where
  "synthetic_path_to_name t =
     map_of (rev (map (\<lambda>e. (fst e, fst (snd e))) (gather_synthetic_genres t)))"

definition manifest_tree :: "config \<Rightarrow> tree \<Rightarrow> track list \<Rightarrow> (string \<times> mnode) list" where
  "manifest_tree cfg t tracks =
     (let res = results (select_seeds cfg t tracks) in
      map (\<lambda>p. (fst p, build_manifest res (synthetic_path_to_name t) (snd p) (fst p))) t)"

text \<open>The median as the claim words it: the middle order statistic, or the
  mean of the two middle ones when the count is even.\<close>

definition std_median :: "real list \<Rightarrow> real" where
  "std_median xs =
     (let s = sort xs; n = length s in
      if odd n then s ! (n div 2) else (s ! (n div 2 - 1) + s ! (n div 2)) / 2)"

text \<open>A seed with three-digit feature values, as a leaf's only seed.\<close>

definition seed_x :: track where
  "seed_x = blank_track\<lparr>uri := Some ''u:x'', name := Some ''X'', artists := [''Xi''],
     artist_genres := [''rock''], popularity := Some 57, danceability := Some (123 / 1000),
     energy := Some (7 / 10)\<rparr>"

definition seed_y :: track where
  "seed_y = blank_track\<lparr>uri := Some ''u:y'', name := Some ''Y'', artists := [''Ypsilon''],
     artist_genres := [''rock''], popularity := Some 60, danceability := Some (1 / 2)\<rparr>"

definition leaf_rock :: node where
  "leaf_rock = Node (Some ''rock'') []"

definition parent_rock :: node where
  "parent_rock = Node None [(''a'', Node (Some ''a'') []), (''b'', Node (Some ''b'') []),
     (''c'', Node (Some ''c'') [])]"

definition res_leaf :: "string \<rightharpoonup> track list" where
  "res_leaf = [''rock'' \<mapsto> [seed_x, seed_y]]"

text \<open>Seeds for the children \<open>a\<close> and \<open>b\<close> of \<open>parent_rock\<close>; the child \<open>c\<close> has
  none and so carries no feature.\<close>

definition res_children :: "string \<rightharpoonup> track list" where
  "res_children = [''a'' \<mapsto> [seed_x], ''b'' \<mapsto> [seed_y]]"

text \<open>\<open>median_sorted\<close> as v2.py and extract_genre_seeds_patched.py have it: for
  an even count it returns the lower of the two middle values.\<close>

definition median_sorted_v2 :: "real list \<Rightarrow> py_error + real" where
  "median_sorted_v2 vals =
     (let n = length vals; mid = n div 2 in
      if n = 0 then Inl ValueError
      else if n mod 2 = 1 then Inr (vals ! mid)
      else Inr (vals ! (mid - 1)))"

section \<open>Rules and sparse-pool relaxation (v2.py)\<close>

text \<open>
  In v2.py the table \<open>GENRE_RULES\<close> is a module-level dictionary of
  dictionaries that \<open>relax_rules_if_sparse\<close> updates; it is modelled as a
  value passed in and returned. No two genres share a record object.
\<close>

definition tricky_buckets :: "string list" where
  "tricky_buckets = [''east coast hip hop'', ''afrobeat'', ''bossa nova'', ''grunge'', ''shoegaze'']"

text \<open>\<open>passes_rules\<close> of v2.py. An integer year is kept when \<open>str(y).isdigit()\<close>,
  that is when it is not negative.\<close>

definition passes_rules_v2 :: "(string \<rightharpoonup> rule) \<Rightarrow> string \<Rightarrow> track \<Rightarrow> bool" where
  "passes_rules_v2 tbl target_genre t =
     (case tbl (py_lower target_genre) of None \<Rightarrow> True
      | Some rules \<Rightarrow>
          let a_gen = map py_lower (tags_of t);
              req = map py_lower (require_artist_genres_any rules);
              deny = map py_lower (deny_artist_genres_any rules);
              overlap = length (concat (map (\<lambda>r. filter (\<lambda>g. py_in r g) a_gen) req));
              nm = py_lower (name_or_empty t);
              deny_tokens = map py_lower (deny_name_contains rules);
              y = (case release_year t of None \<Rightarrow> None
                   | Some v \<Rightarrow> if v \<ge> 0 then Some v else None);
              pop = pop_of t
          in if list_ex (\<lambda>g. list_ex (\<lambda>d. py_in d g) deny) a_gen then False
             else if req \<noteq> [] \<and> overlap < 1 then False
             else if req \<noteq> [] \<and> py_lower target_genre \<in> set tricky_buckets \<and> overlap < 2
             then False
             else if list_ex (\<lambda>tk. py_in tk nm) deny_tokens then False
             else if (case (y, min_year rules) of (Some v, Some m) \<Rightarrow> v < m | _ \<Rightarrow> False)
             then False
             else if (case (y, max_year rules) of (Some v, Some m) \<Rightarrow> v > m | _ \<Rightarrow> False)
             then False
             else if (case popularity_min rules of None \<Rightarrow> False | Some m \<Rightarrow> pop < m) then False
             else if (case popularity_max rules of None \<Rightarrow> False | Some m \<Rightarrow> pop > m) then False
             else True)"

definition ADJACENT :: "string \<rightharpoonup> string list" where
  "ADJACENT =
     [''thrash metal'' \<mapsto> [''speed metal'', ''classic metal'', ''heavy metal''],
      ''shoegaze'' \<mapsto> [''dream pop'', ''noise pop'', ''space rock'', ''slowcore'', ''indie rock''],
      ''post-rock'' \<mapsto> [''instrumental rock'', ''math rock'', ''ambient'', ''experimental rock''],
      ''acid house'' \<mapsto> [''chicago house'', ''acid techno'', ''rave''],
      ''breakbeat'' \<mapsto> [''big beat'', ''nu skool breaks'', ''progressive breaks''],
      ''dub'' \<mapsto> [''dub reggae'', ''roots reggae'', ''rocksteady''],
      ''soca'' \<mapsto> [''power soca'', ''groovy soca'', ''chutney soca'']]"

text \<open>
  \<open>relax_rules_if_sparse(genre, candidates)\<close> with \<open>target_min = 4\<close>. The record
  it updates is the one stored in the table under \<open>genre\<close>; for a genre without
  a record the updates go to a fresh dictionary and are lost. \<open>list(set(xs))\<close>
  is \<open>remdups xs\<close> (Python leaves the order of the result open; nothing here
  depends on it).
\<close>

definition relax_rules_if_sparse ::
    "(string \<rightharpoonup> rule) \<Rightarrow> string \<Rightarrow> track list \<Rightarrow> track list \<times> (string \<rightharpoonup> rule)" where
  "relax_rules_if_sparse tbl genre candidates =
     (if length candidates \<ge> 4 then (candidates, tbl)
      else case tbl genre of None \<Rightarrow> (candidates, tbl)
           | Some rules \<Rightarrow>
               let relaxed = candidates;
                   rules1 = (if popularity_max rules \<noteq> None \<and> length relaxed < 4
                             then rules\<lparr>popularity_max := None\<rparr> else rules);
                   adj = (case ADJACENT genre of None \<Rightarrow> [] | Some a \<Rightarrow> a);
                   rules2 = rules1\<lparr>require_artist_genres_any :=
                              remdups (require_artist_genres_any rules1 @ adj)\<rparr>;
                   rules3 = (if length relaxed < 4
                             then rules2\<lparr>deny_name_contains :=
                                    filter (\<lambda>s. s \<noteq> ''radio edit'' \<and> s \<noteq> ''edit'')
                                      (deny_name_contains rules2)\<rparr>
                             else rules2)
               in (relaxed, tbl(genre \<mapsto> rules3)))"

text \<open>The candidate loop of v2.py for one genre over its bucket of the index:
  \<open>relax_rules_if_sparse\<close> is called after every track that is appended.
  \<open>parent\<close> is the genre's entry in \<open>GENRE_TO_PARENT\<close> (\<open>""\<close> when it has none)
  and \<open>family_ids\<close> the identifiers used under that parent.\<close>

fun candidate_loop_v2 :: "(string \<rightharpoonup> string list) \<Rightarrow> string \<Rightarrow> string \<Rightarrow> string option set
    \<Rightarrow> track list \<Rightarrow> track list \<times> (string \<rightharpoonup> rule) \<Rightarrow> track list \<times> (string \<rightharpoonup> rule)" where
  "candidate_loop_v2 excl genre parent family_ids [] (candidates, tbl) = (candidates, tbl)"
| "candidate_loop_v2 excl genre parent family_ids (t # ts) (candidates, tbl) =
     (if \<not> genre_match excl genre (norm_tags (tags_of t))
      then candidate_loop_v2 excl genre parent family_ids ts (candidates, tbl)
      else if \<not> passes_rules_v2 tbl genre t
      then candidate_loop_v2 excl genre parent family_ids ts (candidates, tbl)
      else if parent \<noteq> [] \<and> \<not> falsy (tid_of t) \<and> tid_of t \<in> family_ids
      then candidate_loop_v2 excl genre parent family_ids ts (candidates, tbl)
      else candidate_loop_v2 excl genre parent family_ids ts
             (relax_rules_if_sparse tbl genre (candidates @ [t])))"

text \<open>The entry "thrash metal" as v2.py sets it (required and denied tags, the
  popularity cap 85), and two tracks of the bucket "thrash metal": the
  second is above the cap.\<close>

definition thrash_rule :: rule where
  "thrash_rule =
     \<lparr>require_artist_genres_any =
        [''thrash metal'', ''bay area thrash'', ''crossover thrash'', ''teutonic thrash'',
         ''speed metal''],
      deny_artist_genres_any = [''glam metal'', ''nu metal'', ''alternative metal'', ''hard rock''],
      deny_name_contains = [],
      deny_artist_contains = [],
      whitelist_artists = [''Metallica'', ''Slayer'', ''Megadeth'', ''Anthrax''],
      boost_artist_contains = [],
      allow_artist_genres_any = [],
      min_year = None,
      max_year = None,
      popularity_min = None,
      popularity_max = Some 85\<rparr>"

definition thrash_table :: "string \<rightharpoonup> rule" where
  "thrash_table = [''thrash metal'' \<mapsto> thrash_rule]"

definition thrash_track_1 :: track where
  "thrash_track_1 = blank_track\<lparr>uri := Some ''u:angel'', name := Some ''Angel Of Death'',
     artists := [''Slayer''], artist_genres := [''thrash metal''], popularity := Some 60\<rparr>"

definition thrash_track_2 :: track where
  "thrash_track_2 = blank_track\<lparr>uri := Some ''u:sandman'', name := Some ''Enter Sandman'',
     artists := [''Metallica''], artist_genres := [''thrash metal'', ''metal''],
     popularity := Some 90\<rparr>"

section \<open>Dependence on the random draws\<close>



section \<open>Standalone tokens\<close>

text \<open>
  A word stands alone in a string when it occurs there, in any letter case,
  with no word character directly before it and none directly after it.
\<close>

definition standalone_word :: "string \<Rightarrow> string \<Rightarrow> bool" where
  "standalone_word w s =
     (\<exists>pre u post. s = pre @ u @ post \<and> py_lower u = w
        \<and> (pre = [] \<or> \<not> is_word (last pre)) \<and> (post = [] \<or> \<not> is_word (hd post)))"

definition feature_words :: "string list" where
  "feature_words = [''feat'', ''ft'', ''featuring'', ''with'']"

text \<open>A title with a parenthesised credit.\<close>

definition credited_track :: track where
  "credited_track = blank_track\<lparr>uri := Some ''u:cil'', name := Some ''Crazy In Love (feat. Jay-Z)'',
     artists := [beyonce], artist_genres := [''pop'']\<rparr>"

section \<open>Quantiles\<close>

lemma py_index_nat: "k < length xs \<Longrightarrow> py_index xs (int k) = Inr (xs ! k)"
  by (simp add: py_index_def)

lemma linear_quantile_interp:
  assumes "0 \<le> q" "q \<le> 1" "2 \<le> length vals"
  shows "linear_quantile vals q =
     (let xs = sort vals; n = length vals; h = real (n - 1) * q; i = nat \<lfloor>h\<rfloor>
      in Inr (Some (if i + 1 < n then xs ! i * (1 - (h - real i)) + xs ! (i + 1) * (h - real i)
                    else xs ! i)))"
proof -
  let ?n = "length vals"
  let ?h = "(real ?n - 1) * q"
  define k where "k = nat \<lfloor>?h\<rfloor>"
  have h0: "0 \<le> ?h" using assms by simp
  have h1: "?h \<le> real ?n - 1" using assms by (simp add: mult_left_le)
  have f0: "0 \<le> \<lfloor>?h\<rfloor>" using h0 by simp
  have fk: "\<lfloor>?h\<rfloor> = int k" using f0 by (simp add: k_def)
  have "\<lfloor>?h\<rfloor> < int ?n" using h1 by (simp add: floor_less_iff)
  then have kn: "k < ?n" using fk by simp
  have r: "real (?n - 1) = real ?n - 1" using assms by (simp add: of_nat_diff)
  have ne: "length (sort vals) \<noteq> 0" "length (sort vals) \<noteq> 1" using assms by auto
  have rn: "real (length (sort vals)) - 1 = real ?n - 1" by simp
  have nn: "int (length (sort vals)) = int ?n" by simp
  have ks: "k < length (sort vals)" using kn by simp
  have p1: "py_index (sort vals) (int k) = Inr (sort vals ! k)" using ks by (rule py_index_nat)
  show ?thesis
  proof (cases "Suc k < ?n")
    case True
    then have c: "int k + 1 < int ?n" by simp
    have s: "Suc k < length (sort vals)" using True by simp
    have p2: "py_index (sort vals) (int k + 1) = Inr (sort vals ! Suc k)"
      using py_index_nat[OF s] by (simp add: add.commute)
    show ?thesis
      unfolding linear_quantile_def Let_def
      by (simp only: ne if_False rn nn fk c if_True p1 p2 sum.case r k_def[symmetric])
         (simp add: True)
  next
    case False
    then have c: "\<not> int k + 1 < int ?n" by simp
    show ?thesis
      unfolding linear_quantile_def Let_def
      by (simp only: ne if_False rn nn fk c p1 sum.case r k_def[symmetric])
         (simp add: False)
  qed
qed

text \<open>
  C5. \<open>linear_quantile\<close> interpolates linearly between the order statistics at
  the index \<open>(n - 1) * q\<close>: for a list of one value it returns that value;
  for \<open>n \<ge> 2\<close> values and \<open>0 \<le> q \<le> 1\<close>, with \<open>h = (n - 1) * q\<close>
  and \<open>i = \<lfloor>h\<rfloor>\<close>, it returns \<open>xs[i] * (1 - (h - i)) + xs[i + 1] * (h - i)\<close>
  over the sorted values \<open>xs\<close> (and \<open>xs[i]\<close> when \<open>i\<close> is the last index);
  on \<open>[10, 20, 30, 40]\<close> it returns 25 at \<open>q = 0.5\<close> and 13 at \<open>q = 0.10\<close>.
\<close>

theorem linear_quantile_correct:
  "linear_quantile [v] q = Inr (Some v)
   \<and> (0 \<le> p \<and> p \<le> 1 \<and> 2 \<le> length vals \<longrightarrow>
        linear_quantile vals p =
          (let xs = sort vals; n = length vals; h = real (n - 1) * p; i = nat \<lfloor>h\<rfloor>
           in Inr (Some (if i + 1 < n
                         then xs ! i * (1 - (h - real i)) + xs ! (i + 1) * (h - real i)
                         else xs ! i))))
   \<and> linear_quantile [10, 20, 30, 40] (1 / 2) = Inr (Some 25)
   \<and> linear_quantile [10, 20, 30, 40] (1 / 10) = Inr (Some 13)"
proof (intro conjI impI)
  show "linear_quantile [v] q = Inr (Some v)"
    by (simp add: linear_quantile_def py_index_def)
  show "linear_quantile [10, 20, 30, 40] (1 / 2) = Inr (Some 25)"
    by (simp add: linear_quantile_def py_index_def Let_def)
  show "linear_quantile [10, 20, 30, 40] (1 / 10) = Inr (Some 13)"
    by (simp add: linear_quantile_def py_index_def Let_def)
next
  assume "0 \<le> p \<and> p \<le> 1 \<and> 2 \<le> length vals"
  then show "linear_quantile vals p =
          (let xs = sort vals; n = length vals; h = real (n - 1) * p; i = nat \<lfloor>h\<rfloor>
           in Inr (Some (if i + 1 < n
                         then xs ! i * (1 - (h - real i)) + xs ! (i + 1) * (h - real i)
                         else xs ! i)))"
    using linear_quantile_interp by blast
qed

theorem linear_quantile_correct_witness:
  "(0::real) \<le> 9 / 10 \<and> (9 / 10 :: real) \<le> 1 \<and> 2 \<le> length [40, 10, 30, 20 :: real]
   \<and> linear_quantile [40, 10, 30, 20] (9 / 10) = Inr (Some 37)"
  using linear_quantile_correct [of 0 0 "9 / 10" "[40, 10, 30, 20]"]
  by (simp add: Let_def)

section \<open>The genre matcher\<close>

lemma starts_with_map: "starts_with p s \<Longrightarrow> starts_with (map f p) (map f s)"
  by (induction p s rule: starts_with.induct) auto

lemma py_in_map: "py_in p s \<Longrightarrow> py_in (map f p) (map f s)"
  by (induction s) (auto dest: starts_with_map[where f = f])

lemma py_in_lower: "py_in p s \<Longrightarrow> py_in (py_lower p) (py_lower s)"
  unfolding py_lower_def by (rule py_in_map)

lemma lower_pop: "py_lower ''pop'' = ''pop''"
  by code_simp

lemma punk_sg: "py_strip (py_lower ''punk'') = ''punk''"
  by code_simp

lemma post_punk_norm: "py_strip (py_lower ''post-punk'') = ''post-punk''"
  by code_simp

lemma punk_in_post_punk: "re_search False (word_pattern ''punk'') ''post-punk''"
  by code_simp

lemma list_ex_mem: "x \<in> set xs \<Longrightarrow> P x \<Longrightarrow> list_ex P xs"
  by (auto simp: list_ex_iff)

text \<open>
  C6. \<open>genre_match("punk", tags)\<close> is true when \<open>tags\<close> contains "post-punk" and
  no exclusion applies; and when the exclusions table maps "punk" to a list
  containing "pop", it is false for every tag list in which some tag contains
  "pop" as a substring, whatever the other tags are.
\<close>

theorem genre_match_punk:
  "(''post-punk'' \<in> set tags \<and> \<not> excluded exa ''punk'' tags \<longrightarrow> genre_match exa ''punk'' tags)
   \<and> (exb ''punk'' = Some exs \<and> ''pop'' \<in> set exs \<and> g \<in> set tags' \<and> py_in ''pop'' g
        \<longrightarrow> \<not> genre_match exb ''punk'' tags')"
proof (intro conjI impI)
  assume a: "''post-punk'' \<in> set tags \<and> \<not> excluded exa ''punk'' tags"
  have "list_ex (\<lambda>tg. let t = py_strip (py_lower tg) in
           t = ''punk'' \<or> re_search False (word_pattern ''punk'') t) tags"
    using a by (intro list_ex_mem[of "''post-punk''"]) (simp_all add: post_punk_norm punk_in_post_punk)
  then show "genre_match exa ''punk'' tags"
    using a by (simp add: genre_match_def punk_sg)
next
  assume b: "exb ''punk'' = Some exs \<and> ''pop'' \<in> set exs \<and> g \<in> set tags' \<and> py_in ''pop'' g"
  then have "py_in (py_lower ''pop'') (py_lower g)" by (simp add: py_in_lower)
  then have "list_ex (\<lambda>g. py_in (py_lower ''pop'') (py_lower g)) tags'"
    using b by (intro list_ex_mem[of g]) simp_all
  then have "excluded exb ''punk'' tags'"
    using b by (auto simp: excluded_def list_ex_iff)
  then show "\<not> genre_match exb ''punk'' tags'"
    by (simp add: genre_match_def)
qed

theorem genre_match_punk_witness:
  "''post-punk'' \<in> set [''post-punk'', ''new wave'']
   \<and> \<not> excluded [''punk'' \<mapsto> [''pop punk'', ''dance'', ''edm'', ''electro'', ''big room'']]
          ''punk'' [''post-punk'', ''new wave'']
   \<and> genre_match [''punk'' \<mapsto> [''pop punk'', ''dance'', ''edm'', ''electro'', ''big room'']]
          ''punk'' [''post-punk'', ''new wave'']
   \<and> [''punk'' \<mapsto> [''pop punk'', ''pop'']] ''punk'' = Some [''pop punk'', ''pop'']
   \<and> ''pop'' \<in> set [''pop punk'', ''pop'']
   \<and> ''pop punk'' \<in> set [''post-punk'', ''pop punk'']
   \<and> py_in ''pop'' ''pop punk''
   \<and> \<not> genre_match [''punk'' \<mapsto> [''pop punk'', ''pop'']] ''punk'' [''post-punk'', ''pop punk'']"
proof -
  have a: "\<not> excluded [''punk'' \<mapsto> [''pop punk'', ''dance'', ''edm'', ''electro'', ''big room'']]
          ''punk'' [''post-punk'', ''new wave'']"
    by code_simp
  have b: "py_in ''pop'' ''pop punk''" by code_simp
  show ?thesis
    using a b
      genre_match_punk [of "[''post-punk'', ''new wave'']"
        "[''punk'' \<mapsto> [''pop punk'', ''dance'', ''edm'', ''electro'', ''big room'']]"
        "[''punk'' \<mapsto> [''pop punk'', ''pop'']]" "[''pop punk'', ''pop'']" "''pop punk''"
        "[''post-punk'', ''pop punk'']"]
    by simp
qed

section \<open>The rule evaluator\<close>









section \<open>File names and feature credits\<close>

lemma sub_from_cls: "sub_from False (Cls p) [] prev s = filter (\<lambda>c. \<not> p c) s"
  by (induction s arbitrary: prev) (auto simp: match_at_def)

lemma re_sub_cls: "re_sub False (Cls p) [] s = filter (\<lambda>c. \<not> p c) s"
  by (simp add: re_sub_def sub_from_cls)











text \<open>
  C10 fails on the code: two tracks without any feature credit survive the
  cleaning, and \<open>strip_features\<close> rewrites the artist "Daft Punk" to "Daunk"
  and the title "Lift Me Up" to "Lie Up".
\<close>

theorem cleaned_tracks_mangle:
  "map (\<lambda>t. (name t, artists t)) (cleaned_tracks [one_more_time_track, lift_me_up_track])
     = [(Some ''One More Time'', [''Daunk'']), (Some ''Lie Up'', [''Rihanna''])]"
  by code_simp

lemma strip_features_credit_value: "strip_features (Some ''JAY-Z feat. Rihanna'') = ''JAY-Zihanna''"
  by code_simp

section \<open>Uniqueness of seeds across genres\<close>

lemma extends_nil: "extends a [] a"
  by (simp add: extends_def)

lemma extends_trans:
  "extends a new b \<Longrightarrow> extends b new' c \<Longrightarrow> extends a (new @ new') c"
  by (auto simp: extends_def)

lemma pick_extends:
  "pick k ts (top_k, ids, arts) = (top', ids', arts') \<Longrightarrow>
   \<exists>new. top' = top_k @ new \<and> extends (ids, arts) new (ids', arts')"
proof (induction ts arbitrary: top_k ids arts)
  case Nil
  then show ?case by (auto simp: extends_def)
next
  case (Cons t ts)
  show ?case
  proof (cases "length top_k \<ge> k")
    case True
    then show ?thesis using Cons.prems by (auto simp: extends_def)
  next
    case False
    show ?thesis
    proof (cases "tid_of t \<in> ids \<or> artist_key t \<in> arts")
      case True
      then have "pick k ts (top_k, ids, arts) = (top', ids', arts')"
        using Cons.prems False by simp
      from Cons.IH[OF this] show ?thesis .
    next
      case nt: False
      then have "pick k ts (top_k @ [t], insert (tid_of t) ids, insert (artist_key t) arts)
                   = (top', ids', arts')"
        using Cons.prems False by simp
      from Cons.IH[OF this] obtain new where
        n: "top' = (top_k @ [t]) @ new"
           "extends (insert (tid_of t) ids, insert (artist_key t) arts) new (ids', arts')"
        by blast
      have "extends (ids, arts) [t] (insert (tid_of t) ids, insert (artist_key t) arts)"
        using nt by (auto simp: extends_def)
      from extends_trans[OF this n(2)] n(1) show ?thesis by auto
    qed
  qed
qed

lemma first_pass_extends:
  "first_pass children cands (sel, ids, arts) = (cands', sel', ids', arts') \<Longrightarrow>
   \<exists>new. sel' = sel @ new \<and> extends (ids, arts) new (ids', arts')"
proof (induction children arbitrary: cands sel ids arts)
  case Nil
  then show ?case by (auto simp: extends_def)
next
  case (Cons child rest)
  show ?case
  proof (cases "length sel \<ge> 5")
    case True
    then show ?thesis using Cons.prems by (auto simp: extends_def)
  next
    case False
    let ?P = "\<lambda>c. child_genre c = child \<and> tid_of (cand_track c) \<notin> ids
                        \<and> artist_key (cand_track c) \<notin> arts"
    show ?thesis
    proof (cases "find ?P cands")
      case None
      then have "first_pass rest cands (sel, ids, arts) = (cands', sel', ids', arts')"
        using Cons.prems False by simp
      from Cons.IH[OF this] show ?thesis .
    next
      case (Some c)
      then have pc: "?P c" by (auto simp: find_Some_iff)
      let ?t = "cand_track c"
      have "first_pass rest (remove1 c cands)
              (sel @ [?t], insert (tid_of ?t) ids, insert (artist_key ?t) arts)
            = (cands', sel', ids', arts')"
        using Cons.prems False Some by simp
      from Cons.IH[OF this] obtain new where
        n: "sel' = (sel @ [?t]) @ new"
           "extends (insert (tid_of ?t) ids, insert (artist_key ?t) arts) new (ids', arts')"
        by blast
      have "extends (ids, arts) [?t] (insert (tid_of ?t) ids, insert (artist_key ?t) arts)"
        using pc by (auto simp: extends_def)
      from extends_trans[OF this n(2)] n(1) show ?thesis by auto
    qed
  qed
qed

lemma unique_inv_init: "unique_inv init_state"
  by (simp add: unique_inv_def init_state_def)

lemma unique_inv_empty:
  "unique_inv st \<Longrightarrow> unique_inv (st\<lparr>results := (results st)(g \<mapsto> [])\<rparr>)"
  unfolding unique_inv_def by (auto split: if_splits)

lemma unique_inv_step:
  assumes inv: "unique_inv st"
    and ext: "extends (global_seen_ids st, global_seen_artists st) new (ids, arts)"
  shows "unique_inv (st\<lparr>results := (results st)(g \<mapsto> new),
                        global_seen_ids := ids, global_seen_artists := arts\<rparr>)"
proof -
  have ids: "ids = global_seen_ids st \<union> tid_of ` set new"
    and arts: "arts = global_seen_artists st \<union> artist_key ` set new"
    and fresh: "\<And>t. t \<in> set new \<Longrightarrow>
        tid_of t \<notin> global_seen_ids st \<and> artist_key t \<notin> global_seen_artists st"
    using ext by (auto simp: extends_def)
  have rec: "\<And>h l t. results st h = Some l \<Longrightarrow> t \<in> set l \<Longrightarrow>
        tid_of t \<in> global_seen_ids st \<and> artist_key t \<in> global_seen_artists st"
    using inv unfolding unique_inv_def by blast
  have dis: "\<And>h h' l l' t t'. h \<noteq> h' \<Longrightarrow> results st h = Some l \<Longrightarrow> results st h' = Some l'
        \<Longrightarrow> t \<in> set l \<Longrightarrow> t' \<in> set l' \<Longrightarrow>
        tid_of t \<noteq> tid_of t' \<and> artist_key t \<noteq> artist_key t'"
    using inv unfolding unique_inv_def by blast
  show ?thesis
    unfolding unique_inv_def
  proof (intro conjI allI impI)
    fix h l t
    assume a: "results (st\<lparr>results := (results st)(g \<mapsto> new),
                        global_seen_ids := ids, global_seen_artists := arts\<rparr>) h = Some l
               \<and> t \<in> set l"
    show "tid_of t \<in> global_seen_ids (st\<lparr>results := (results st)(g \<mapsto> new),
                        global_seen_ids := ids, global_seen_artists := arts\<rparr>)"
      using a rec ids by (cases "h = g") auto
    show "artist_key t \<in> global_seen_artists (st\<lparr>results := (results st)(g \<mapsto> new),
                        global_seen_ids := ids, global_seen_artists := arts\<rparr>)"
      using a rec arts by (cases "h = g") auto
  next
    fix h h' l l' t t'
    assume a: "h \<noteq> h' \<and> results (st\<lparr>results := (results st)(g \<mapsto> new),
                        global_seen_ids := ids, global_seen_artists := arts\<rparr>) h = Some l
         \<and> results (st\<lparr>results := (results st)(g \<mapsto> new),
                        global_seen_ids := ids, global_seen_artists := arts\<rparr>) h' = Some l'
         \<and> t \<in> set l \<and> t' \<in> set l'"
    consider "h = g" "h' \<noteq> g" | "h \<noteq> g" "h' = g" | "h \<noteq> g" "h' \<noteq> g"
      using a by blast
    then have "tid_of t \<noteq> tid_of t' \<and> artist_key t \<noteq> artist_key t'"
    proof cases
      case 1
      then have "t \<in> set new" "results st h' = Some l'" using a by auto
      then show ?thesis using fresh[of t] rec[of h' l' t'] a by auto
    next
      case 2
      then have "t' \<in> set new" "results st h = Some l" using a by auto
      then show ?thesis using fresh[of t'] rec[of h l t] a by auto
    next
      case 3
      then show ?thesis using dis[of h h' l l' t t'] a by auto
    qed
    then show "tid_of t \<noteq> tid_of t'" and "artist_key t \<noteq> artist_key t'" by auto
  qed
qed

lemma unique_inv_process_genre:
  assumes "unique_inv st"
  shows "unique_inv (process_genre cfg idx st g)"
proof -
  let ?cands = "gather_candidates cfg idx g"
  let ?unique = "dedupe ?cands {} {}"
  show ?thesis
  proof (cases "?cands = [] \<or> ?unique = []")
    case True
    then show ?thesis using unique_inv_empty[OF assms]
      by (auto simp: process_genre_def Let_def)
  next
    case False
    obtain top_k ids arts where p:
      "pick (seeds_per_genre cfg) (sort_by_score cfg g (draws st) ?unique)
         ([], global_seen_ids st, global_seen_artists st) = (top_k, ids, arts)"
      by (metis prod_cases3)
    from pick_extends[OF p] have e:
      "extends (global_seen_ids st, global_seen_artists st) top_k (ids, arts)" by auto
    have "unique_inv (st\<lparr>results := (results st)(g \<mapsto> top_k),
                        global_seen_ids := ids, global_seen_artists := arts\<rparr>)"
      by (rule unique_inv_step[OF assms e])
    then have "unique_inv (st\<lparr>results := (results st)(g \<mapsto> top_k),
                        global_seen_ids := ids, global_seen_artists := arts,
                        draws := draws st + length ?unique\<rparr>)"
      by (simp add: unique_inv_def)
    moreover have "process_genre cfg idx st g = st\<lparr>results := (results st)(g \<mapsto> top_k),
                        global_seen_ids := ids, global_seen_artists := arts,
                        draws := draws st + length ?unique\<rparr>"
      using False p by (simp add: process_genre_def Let_def)
    ultimately show ?thesis by simp
  qed
qed

lemma unique_inv_process_synthetic:
  assumes "unique_inv st"
  shows "unique_inv (process_synthetic cfg idx st e)"
proof -
  obtain full_path display_name child_seeds where e: "e = (full_path, display_name, child_seeds)"
    by (metis prod_cases3)
  let ?agg = "compute_aggregate_features (results st) child_seeds"
  show ?thesis
  proof (cases "?agg = []")
    case True
    then show ?thesis using unique_inv_empty[OF assms] by (simp add: process_synthetic_def e)
  next
    case False
    let ?u = "sort_key (\<lambda>c. distance_key (distance c))
                (dedupe_candidates (synthetic_candidates cfg idx (global_seen_ids st) ?agg child_seeds) {})"
    obtain remaining sel1 ids1 arts1 where f:
      "first_pass child_seeds ?u ([], global_seen_ids st, global_seen_artists st)
         = (remaining, sel1, ids1, arts1)"
      by (metis prod_cases4)
    obtain sel ids arts where p:
      "pick 5 (map cand_track remaining) (sel1, ids1, arts1) = (sel, ids, arts)"
      by (metis prod_cases3)
    from first_pass_extends[OF f] have e1:
      "extends (global_seen_ids st, global_seen_artists st) sel1 (ids1, arts1)" by auto
    from pick_extends[OF p] obtain new where
      n: "sel = sel1 @ new" "extends (ids1, arts1) new (ids, arts)" by blast
    have "extends (global_seen_ids st, global_seen_artists st) sel (ids, arts)"
      using extends_trans[OF e1 n(2)] n(1) by simp
    from unique_inv_step[OF assms this]
    have "unique_inv (st\<lparr>results := (results st)(display_name \<mapsto> sel),
                        global_seen_ids := ids, global_seen_artists := arts\<rparr>)" .
    moreover have "process_synthetic cfg idx st e
       = st\<lparr>results := (results st)(display_name \<mapsto> sel),
                        global_seen_ids := ids, global_seen_artists := arts\<rparr>"
      using False f p by (simp add: process_synthetic_def e Let_def)
    ultimately show ?thesis by simp
  qed
qed

lemma foldl_preserves:
  "(\<And>st x. P st \<Longrightarrow> P (f st x)) \<Longrightarrow> P s \<Longrightarrow> P (foldl f s xs)"
  by (induction xs arbitrary: s) auto

lemma unique_inv_select_playable: "unique_inv (select_playable cfg idx gs)"
  unfolding select_playable_def
  by (rule foldl_preserves[where P = unique_inv])
     (simp_all add: unique_inv_process_genre unique_inv_init)

lemma unique_inv_select_seeds: "unique_inv (select_seeds cfg tr tracks)"
  unfolding select_seeds_def Let_def
  by (rule foldl_preserves[where P = unique_inv])
     (simp_all add: unique_inv_process_synthetic unique_inv_select_playable)


text \<open>
  C1. In the results of a completed run (global uniqueness is always on in
  killmegod.py), the seed lists of two different genres share no track
  identifier, and they share no primary artist; this holds for every pair
  of different keys of the results map, in particular for sibling genres
  under one parent.
\<close>

theorem uniqueness_invariant:
  assumes "g \<noteq> g'"
    and "results (select_seeds cfg tr tracks) g = Some l"
    and "results (select_seeds cfg tr tracks) g' = Some l'"
  shows "set (map tid_of l) \<inter> set (map tid_of l') = {}
       \<and> set (map first_artist l) \<inter> set (map first_artist l') = {}"
proof -
  have "\<And>t t'. t \<in> set l \<Longrightarrow> t' \<in> set l' \<Longrightarrow>
          tid_of t \<noteq> tid_of t' \<and> artist_key t \<noteq> artist_key t'"
    using unique_inv_select_seeds[of cfg tr tracks] assms unfolding unique_inv_def by blast
  then show ?thesis by (fastforce simp: artist_key_def)
qed

lemma demo_playable: "gather_playable_genres demo_tree = [''rock'', ''punk'', ''metal'']"
  by code_simp

lemma demo_synthetic:
  "gather_synthetic_genres demo_tree = [(''rock/Heavy'', ''Heavy'', [''punk'', ''metal''])]"
  by code_simp

lemma demo_aggregate:
  "compute_aggregate_features
     (results (select_playable demo_cfg demo_index [''rock'', ''punk'', ''metal'']))
     [''punk'', ''metal''] = []"
  by code_simp

lemma demo_select_seeds:
  "select_seeds demo_cfg demo_tree demo_tracks =
     (select_playable demo_cfg demo_index [''rock'', ''punk'', ''metal''])
       \<lparr>results :=
          (results (select_playable demo_cfg demo_index [''rock'', ''punk'', ''metal'']))
            (''Heavy'' \<mapsto> [])\<rparr>"
  by (simp add: select_seeds_def demo_playable demo_synthetic process_synthetic_def
      demo_aggregate demo_index_def[symmetric] Let_def)

lemma demo_rock:
  "results (select_playable demo_cfg demo_index [''rock'', ''punk'', ''metal'']) ''rock''
     = Some [track_a]"
  by code_simp

lemma demo_punk:
  "results (select_playable demo_cfg demo_index [''rock'', ''punk'', ''metal'']) ''punk''
     = Some [track_b]"
  by code_simp

theorem uniqueness_invariant_witness:
  "''rock'' \<noteq> ''punk''
   \<and> results (select_seeds demo_cfg demo_tree demo_tracks) ''rock'' = Some [track_a]
   \<and> results (select_seeds demo_cfg demo_tree demo_tracks) ''punk'' = Some [track_b]
   \<and> set (map tid_of [track_a]) \<inter> set (map tid_of [track_b]) = {}
   \<and> set (map first_artist [track_a]) \<inter> set (map first_artist [track_b]) = {}"
proof -
  have r: "results (select_seeds demo_cfg demo_tree demo_tracks) ''rock'' = Some [track_a]"
    by (simp add: demo_select_seeds demo_rock)
  have p: "results (select_seeds demo_cfg demo_tree demo_tracks) ''punk'' = Some [track_b]"
    by (simp add: demo_select_seeds demo_punk)
  have n: "''rock'' \<noteq> ''punk''" by simp
  show ?thesis using uniqueness_invariant[OF n r p] r p by simp
qed

section \<open>The number of seeds per genre\<close>

lemma pick_length_le:
  "length (fst (pick k ts (top_k, ids, arts))) \<le> max k (length top_k)"
  by (induction ts arbitrary: top_k ids arts) (auto simp: le_max_iff_disj, force)

lemma first_pass_length_le:
  "first_pass children cands (sel, ids, arts) = (cands', sel', ids', arts') \<Longrightarrow>
   length sel' \<le> max 5 (length sel)"
proof (induction children arbitrary: cands sel ids arts)
  case Nil
  then show ?case by auto
next
  case (Cons child rest)
  show ?case
  proof (cases "length sel \<ge> 5")
    case True
    then show ?thesis using Cons.prems by auto
  next
    case False
    let ?P = "\<lambda>c. child_genre c = child \<and> tid_of (cand_track c) \<notin> ids
                        \<and> artist_key (cand_track c) \<notin> arts"
    show ?thesis
    proof (cases "find ?P cands")
      case None
      then have "first_pass rest cands (sel, ids, arts) = (cands', sel', ids', arts')"
        using Cons.prems False by simp
      from Cons.IH[OF this] show ?thesis .
    next
      case (Some c)
      let ?t = "cand_track c"
      have "first_pass rest (remove1 c cands)
              (sel @ [?t], insert (tid_of ?t) ids, insert (artist_key ?t) arts)
            = (cands', sel', ids', arts')"
        using Cons.prems False Some by simp
      from Cons.IH[OF this] show ?thesis using False by auto
    qed
  qed
qed

lemma pick_length:
  assumes "length top_k \<le> k" "distinct (map tid_of ts)" "distinct (map artist_key ts)"
  shows "length (fst (pick k ts (top_k, ids, arts)))
     = min k (length top_k + length (filter (\<lambda>t. tid_of t \<notin> ids \<and> artist_key t \<notin> arts) ts))"
  using assms
proof (induction ts arbitrary: top_k ids arts)
  case Nil
  then show ?case by simp
next
  case (Cons t ts)
  show ?case
  proof (cases "length top_k \<ge> k")
    case True
    then show ?thesis using Cons.prems by simp
  next
    case False
    show ?thesis
    proof (cases "tid_of t \<in> ids \<or> artist_key t \<in> arts")
      case True
      then show ?thesis using Cons False by auto
    next
      case nt: False
      have same: "filter (\<lambda>u. tid_of u \<notin> insert (tid_of t) ids
                        \<and> artist_key u \<notin> insert (artist_key t) arts) ts
                = filter (\<lambda>u. tid_of u \<notin> ids \<and> artist_key u \<notin> arts) ts"
      proof (intro filter_cong refl)
        fix u assume u: "u \<in> set ts"
        have "tid_of u \<in> set (map tid_of ts)" "artist_key u \<in> set (map artist_key ts)"
          using u by simp_all
        then have "tid_of u \<noteq> tid_of t" "artist_key u \<noteq> artist_key t"
          using Cons.prems by auto
        then show "(tid_of u \<notin> insert (tid_of t) ids
                        \<and> artist_key u \<notin> insert (artist_key t) arts)
                 = (tid_of u \<notin> ids \<and> artist_key u \<notin> arts)" by simp
      qed
      have "length (fst (pick k ts (top_k @ [t], insert (tid_of t) ids, insert (artist_key t) arts)))
            = min k (length (top_k @ [t]) + length (filter (\<lambda>u. tid_of u \<notin> insert (tid_of t) ids
                        \<and> artist_key u \<notin> insert (artist_key t) arts) ts))"
        using Cons.prems False by (intro Cons.IH) auto
      then show ?thesis using nt False by (simp only: same) simp
    qed
  qed
qed

lemma dedupe_fresh:
  "t \<in> set (dedupe cs S A) \<Longrightarrow> tid_of t \<notin> S \<and> artist_key t \<notin> A"
  by (induction cs arbitrary: S A) (auto simp: Let_def artist_key_def split: if_splits)

lemma dedupe_distinct:
  "distinct (map tid_of (dedupe cs S A)) \<and> distinct (map artist_key (dedupe cs S A))"
proof (induction cs arbitrary: S A)
  case Nil
  then show ?case by simp
next
  case (Cons c cs)
  let ?rest = "dedupe cs (insert (tid_of c) S) (insert (artist_key c) A)"
  have fr: "\<And>t. t \<in> set ?rest \<Longrightarrow> tid_of t \<noteq> tid_of c \<and> artist_key t \<noteq> artist_key c"
    using dedupe_fresh[of _ cs "insert (tid_of c) S" "insert (artist_key c) A"] by blast
  have a: "tid_of c \<notin> set (map tid_of ?rest)" using fr by fastforce
  have b: "artist_key c \<notin> set (map artist_key ?rest)" using fr by fastforce
  have k: "py_lower (py_strip (first_artist c)) = artist_key c" by (simp add: artist_key_def)
  show ?case
    using Cons.IH a b by (simp add: Let_def k)
qed

lemma length_score_keys: "length (score_keys cfg g d ts) = length ts"
  by (simp add: score_keys_def)

lemma mset_sort_by_score: "mset (sort_by_score cfg g d ts) = mset ts"
proof -
  have "mset (map snd (sort_key (\<lambda>p. - fst p) (zip (score_keys cfg g d ts) ts)))
        = mset (map snd (zip (score_keys cfg g d ts) ts))"
    by (simp only: mset_map mset_sort)
  then show ?thesis by (simp add: sort_by_score_def length_score_keys)
qed

lemma distinct_map_mset: "mset xs = mset ys \<Longrightarrow> distinct (map f xs) = distinct (map f ys)"
  by (metis mset_eq_imp_distinct_iff mset_map)

lemma length_filter_mset: "mset xs = mset ys \<Longrightarrow> length (filter P xs) = length (filter P ys)"
  by (metis mset_filter size_mset)

lemma process_genre_result:
  "\<exists>l. results (process_genre cfg idx st g) g = Some l
       \<and> length l = min (seeds_per_genre cfg) (length (remaining_pool cfg idx st g))"
proof -
  let ?cands = "gather_candidates cfg idx g"
  let ?unique = "dedupe ?cands {} {}"
  let ?sorted = "sort_by_score cfg g (draws st) ?unique"
  show ?thesis
  proof (cases "?cands = [] \<or> ?unique = []")
    case True
    then show ?thesis by (auto simp: process_genre_def Let_def remaining_pool_def)
  next
    case False
    obtain top_k ids arts where p:
      "pick (seeds_per_genre cfg) ?sorted ([], global_seen_ids st, global_seen_artists st)
         = (top_k, ids, arts)"
      by (metis prod_cases3)
    have m: "mset ?sorted = mset ?unique" by (rule mset_sort_by_score)
    have d: "distinct (map tid_of ?sorted)" "distinct (map artist_key ?sorted)"
      using dedupe_distinct[of ?cands "{}" "{}"] distinct_map_mset[OF m] by auto
    have "length (fst (pick (seeds_per_genre cfg) ?sorted
                    ([], global_seen_ids st, global_seen_artists st)))
          = min (seeds_per_genre cfg) (length ([]::track list) + length (filter (\<lambda>t. tid_of t \<notin> global_seen_ids st
                  \<and> artist_key t \<notin> global_seen_artists st) ?sorted))"
      by (rule pick_length) (simp_all add: d)
    then have "length top_k = min (seeds_per_genre cfg) (length (remaining_pool cfg idx st g))"
      using p length_filter_mset[OF m] by (simp add: remaining_pool_def)
    moreover have "results (process_genre cfg idx st g) g = Some top_k"
      using False p by (simp add: process_genre_def Let_def)
    ultimately show ?thesis by simp
  qed
qed

lemma process_genre_other: "h \<noteq> g \<Longrightarrow> results (process_genre cfg idx st g) h = results st h"
  by (auto simp: process_genre_def Let_def split: prod.splits)

lemma foldl_process_genre_other:
  "g \<notin> set gs \<Longrightarrow> results (foldl (process_genre cfg idx) st gs) g = results st g"
  by (induction gs arbitrary: st) (auto simp: process_genre_other)

lemma process_synthetic_other:
  "fst (snd e) \<noteq> g \<Longrightarrow> results (process_synthetic cfg idx st e) g = results st g"
  by (auto simp: process_synthetic_def Let_def split: prod.splits)

lemma foldl_process_synthetic_other:
  "g \<notin> set (map (\<lambda>e. fst (snd e)) es) \<Longrightarrow>
   results (foldl (process_synthetic cfg idx) st es) g = results st g"
  by (induction es arbitrary: st) (auto simp: process_synthetic_other)

lemma unique_ordered_fresh: "x \<in> set (unique_ordered seen gs) \<Longrightarrow> x \<notin> set seen"
  by (induction gs arbitrary: seen) (fastforce split: if_splits)+

lemma unique_ordered_distinct: "distinct (unique_ordered seen gs)"
  by (induction gs arbitrary: seen) (auto dest: unique_ordered_fresh)

lemma distinct_playable: "distinct (gather_playable_genres tr)"
  by (simp add: gather_playable_genres_def unique_ordered_distinct)


lemma bound_process_genre:
  assumes "\<And>h m. results st h = Some m \<Longrightarrow> length m \<le> b"
    and "seeds_per_genre cfg \<le> b"
    and "results (process_genre cfg idx st g) h = Some m"
  shows "length m \<le> b"
proof (cases "h = g")
  case True
  then show ?thesis using process_genre_result[of cfg idx st g] assms by auto
next
  case False
  then show ?thesis using assms by (simp add: process_genre_other)
qed

lemma bound_select_playable:
  "results (select_playable cfg idx gs) h = Some m \<Longrightarrow> length m \<le> seeds_per_genre cfg"
proof -
  have "\<forall>h m. results (foldl (process_genre cfg idx) init_state gs) h = Some m
          \<longrightarrow> length m \<le> seeds_per_genre cfg"
    by (rule foldl_preserves[where P = "\<lambda>st. \<forall>h m. results st h = Some m
          \<longrightarrow> length m \<le> seeds_per_genre cfg"])
       (auto simp: init_state_def intro: bound_process_genre)
  then show "results (select_playable cfg idx gs) h = Some m \<Longrightarrow> length m \<le> seeds_per_genre cfg"
    by (simp add: select_playable_def)
qed

lemma process_synthetic_result:
  "\<exists>l. results (process_synthetic cfg idx st e) (fst (snd e)) = Some l \<and> length l \<le> 5"
proof -
  obtain full_path display_name child_seeds where e: "e = (full_path, display_name, child_seeds)"
    by (metis prod_cases3)
  let ?agg = "compute_aggregate_features (results st) child_seeds"
  show ?thesis
  proof (cases "?agg = []")
    case True
    then show ?thesis by (simp add: process_synthetic_def e)
  next
    case False
    let ?u = "sort_key (\<lambda>c. distance_key (distance c))
                (dedupe_candidates (synthetic_candidates cfg idx (global_seen_ids st) ?agg child_seeds) {})"
    obtain remaining sel1 ids1 arts1 where f:
      "first_pass child_seeds ?u ([], global_seen_ids st, global_seen_artists st)
         = (remaining, sel1, ids1, arts1)"
      by (metis prod_cases4)
    obtain sel ids arts where p:
      "pick 5 (map cand_track remaining) (sel1, ids1, arts1) = (sel, ids, arts)"
      by (metis prod_cases3)
    have "length sel1 \<le> 5" using first_pass_length_le[OF f] by simp
    then have "length sel \<le> 5"
      using pick_length_le[of 5 "map cand_track remaining" sel1 ids1 arts1] p by simp
    moreover have "results (process_synthetic cfg idx st e) display_name = Some sel"
      using False f p by (simp add: process_synthetic_def e Let_def)
    ultimately show ?thesis by (simp add: e)
  qed
qed

lemma bound_process_synthetic:
  assumes "\<And>h m. results st h = Some m \<Longrightarrow> length m \<le> 5"
    and "results (process_synthetic cfg idx st e) h = Some m"
  shows "length m \<le> 5"
proof (cases "h = fst (snd e)")
  case True
  then show ?thesis using process_synthetic_result[of cfg idx st e] assms by auto
next
  case False
  then show ?thesis using assms by (simp add: process_synthetic_other)
qed

lemma bound_select_seeds:
  assumes "seeds_per_genre cfg = 5" and "results (select_seeds cfg tr tracks) h = Some m"
  shows "length m \<le> 5"
proof -
  let ?idx = "index_tracks cfg tracks"
  let ?st = "select_playable cfg ?idx (gather_playable_genres tr)"
  have "\<forall>h m. results (foldl (process_synthetic cfg ?idx) ?st (gather_synthetic_genres tr)) h
          = Some m \<longrightarrow> length m \<le> 5"
  proof (rule foldl_preserves[where P = "\<lambda>st. \<forall>h m. results st h = Some m \<longrightarrow> length m \<le> 5"])
    show "\<forall>h m. results ?st h = Some m \<longrightarrow> length m \<le> 5"
      using bound_select_playable[of cfg ?idx] assms(1) by metis
  qed (auto intro: bound_process_synthetic)
  then show ?thesis using assms(2) by (simp add: select_seeds_def Let_def)
qed

lemma select_playable_split:
  "select_playable cfg idx (pre @ g # post)
     = foldl (process_genre cfg idx) (process_genre cfg idx (select_playable cfg idx pre) g) post"
  by (simp add: select_playable_def)

text \<open>
  C4. For every playable genre \<open>g\<close> of the tree (whose name is not also the
  name of a synthetic node), the seed list in the final results has length
  at most \<open>K = seeds_per_genre\<close>, and exactly \<open>K\<close> whenever the pool of filtered,
  de-duplicated candidates left after the global exclusion, taken when the
  loop reaches \<open>g\<close>, has at least \<open>K\<close> elements (in general its length is
  the minimum of \<open>K\<close> and the size of that pool). With \<open>K = 5\<close> as in \<open>CONFIG\<close>,
  every list of the final results, those of synthetic nodes included, has
  length at most 5.
\<close>

theorem seed_count_bound:
  assumes "gather_playable_genres tr = pre @ g # post"
    and "g \<notin> set (map (\<lambda>e. fst (snd e)) (gather_synthetic_genres tr))"
  shows "(\<exists>l. results (select_seeds cfg tr tracks) g = Some l
           \<and> length l \<le> seeds_per_genre cfg
           \<and> (seeds_per_genre cfg
                 \<le> length (remaining_pool cfg (index_tracks cfg tracks)
                            (select_playable cfg (index_tracks cfg tracks) pre) g)
                \<longrightarrow> length l = seeds_per_genre cfg)
           \<and> length l = min (seeds_per_genre cfg)
                 (length (remaining_pool cfg (index_tracks cfg tracks)
                            (select_playable cfg (index_tracks cfg tracks) pre) g)))
       \<and> (seeds_per_genre cfg' = 5 \<longrightarrow>
           (\<forall>h m. results (select_seeds cfg' tr tracks) h = Some m \<longrightarrow> length m \<le> 5))"
proof (rule conjI)
  let ?idx = "index_tracks cfg tracks"
  let ?st = "select_playable cfg ?idx pre"
  have "distinct (pre @ g # post)" using distinct_playable[of tr] assms(1) by simp
  then have notin: "g \<notin> set post" by simp
  have "results (select_seeds cfg tr tracks) g
        = results (select_playable cfg ?idx (pre @ g # post)) g"
    using assms by (simp add: select_seeds_def Let_def foldl_process_synthetic_other)
  also have "\<dots> = results (process_genre cfg ?idx ?st g) g"
    using notin by (simp add: select_playable_split foldl_process_genre_other)
  finally have eq: "results (select_seeds cfg tr tracks) g
        = results (process_genre cfg ?idx ?st g) g" .
  obtain l where l: "results (process_genre cfg ?idx ?st g) g = Some l"
      "length l = min (seeds_per_genre cfg) (length (remaining_pool cfg ?idx ?st g))"
    using process_genre_result by blast
  show "\<exists>l. results (select_seeds cfg tr tracks) g = Some l
           \<and> length l \<le> seeds_per_genre cfg
           \<and> (seeds_per_genre cfg \<le> length (remaining_pool cfg ?idx ?st g)
                \<longrightarrow> length l = seeds_per_genre cfg)
           \<and> length l = min (seeds_per_genre cfg) (length (remaining_pool cfg ?idx ?st g))"
    using eq l by auto
  show "seeds_per_genre cfg' = 5 \<longrightarrow>
           (\<forall>h m. results (select_seeds cfg' tr tracks) h = Some m \<longrightarrow> length m \<le> 5)"
    using bound_select_seeds by blast
qed

lemma demo_pool:
  "map name (remaining_pool demo_cfg demo_index (select_playable demo_cfg demo_index [''rock''])
     ''punk'') = [Some ''B'']"
  by code_simp

lemma demo_aggregate5:
  "compute_aggregate_features
     (results (select_playable demo_cfg5 (index_tracks demo_cfg5 demo_tracks)
        [''rock'', ''punk'', ''metal'']))
     [''punk'', ''metal''] = []"
  by code_simp

lemma demo_metal5:
  "results (select_playable demo_cfg5 (index_tracks demo_cfg5 demo_tracks)
     [''rock'', ''punk'', ''metal'']) ''metal'' = Some [track_c]"
  by code_simp

lemma demo_select_seeds5:
  "results (select_seeds demo_cfg5 demo_tree demo_tracks) ''metal'' = Some [track_c]"
  by (simp add: select_seeds_def demo_playable demo_synthetic process_synthetic_def
      demo_aggregate5 demo_metal5 Let_def)

theorem seed_count_bound_witness:
  "gather_playable_genres demo_tree = [''rock''] @ ''punk'' # [''metal'']
   \<and> ''punk'' \<notin> set (map (\<lambda>e. fst (snd e)) (gather_synthetic_genres demo_tree))
   \<and> seeds_per_genre demo_cfg
        \<le> length (remaining_pool demo_cfg (index_tracks demo_cfg demo_tracks)
                    (select_playable demo_cfg (index_tracks demo_cfg demo_tracks) [''rock''])
                    ''punk'')
   \<and> results (select_seeds demo_cfg demo_tree demo_tracks) ''punk'' = Some [track_b]
   \<and> length [track_b] = seeds_per_genre demo_cfg
   \<and> seeds_per_genre demo_cfg5 = 5
   \<and> results (select_seeds demo_cfg5 demo_tree demo_tracks) ''metal'' = Some [track_c]
   \<and> length [track_c] \<le> 5"
proof -
  have a: "gather_playable_genres demo_tree = [''rock''] @ ''punk'' # [''metal'']"
    by (simp add: demo_playable)
  have b: "''punk'' \<notin> set (map (\<lambda>e. fst (snd e)) (gather_synthetic_genres demo_tree))"
    by (simp add: demo_synthetic)
  have "length (map name (remaining_pool demo_cfg demo_index
          (select_playable demo_cfg demo_index [''rock'']) ''punk'')) = 1"
    by (simp only: demo_pool) simp
  then have c: "seeds_per_genre demo_cfg
        \<le> length (remaining_pool demo_cfg (index_tracks demo_cfg demo_tracks)
                    (select_playable demo_cfg (index_tracks demo_cfg demo_tracks) [''rock''])
                    ''punk'')"
    by (simp add: demo_index_def demo_cfg_def)
  have p: "results (select_seeds demo_cfg demo_tree demo_tracks) ''punk'' = Some [track_b]"
    by (simp add: demo_select_seeds demo_punk)
  have k: "seeds_per_genre demo_cfg5 = 5" by (simp add: demo_cfg5_def)
  have m: "results (select_seeds demo_cfg5 demo_tree demo_tracks) ''metal'' = Some [track_c]"
    by (rule demo_select_seeds5)
  have "length [track_b] = seeds_per_genre demo_cfg \<and> length [track_c] \<le> 5"
    using seed_count_bound[OF a b, of demo_cfg demo_tracks demo_cfg5] c p k m by auto
  then show ?thesis using a b c p k m by blast
qed

section \<open>Feature aggregation\<close>

lemma median_nonempty: "vals \<noteq> [] \<Longrightarrow> median vals = Inr (std_median vals)"
  by (auto simp: median_def median_sorted_def std_median_def Let_def odd_iff_mod_2_eq_one)

lemma map_of_median_entry:
  "map_of (median_entry k vals) k' =
     (if k' = k \<and> vals \<noteq> [] then Some (Some (sround (std_median vals))) else None)"
  by (simp add: median_entry_def median_nonempty)

lemma map_of_median_entries:
  "map_of (concat (map (\<lambda>k. median_entry k (v k)) ks)) k =
     (if k \<in> set ks \<and> v k \<noteq> [] then Some (Some (sround (std_median (v k)))) else None)"
  by (induction ks) (auto simp: map_of_append map_of_median_entry map_add_def split: option.splits)

lemma feature_field_not_tempo:
  "f \<in> set FEATURE_FIELDS \<Longrightarrow> f \<noteq> ''tempo_bpm'' \<and> f \<noteq> ''tempo_norm''"
  by (auto simp: FEATURE_FIELDS_def)

lemma compute_features_lookup:
  assumes "f \<in> set FEATURE_FIELDS"
  shows "map_of (fst (compute_features_from_tracks S)) f =
     (if present (map (feature_of f) S) = [] then None
      else Some (Some (sround (std_median (present (map (feature_of f) S))))))"
proof -
  have t: "map_of (if present (map tempo S) = [] then []
             else case median (present (map tempo S)) of Inl e \<Rightarrow> []
                  | Inr med_bpm \<Rightarrow> [(''tempo_bpm'', Some (sround med_bpm)),
                                   (''tempo_norm'', Some (sround (tempo_to_norm med_bpm)))]) f = None"
    using feature_field_not_tempo[OF assms] by (auto split: sum.splits)
  show ?thesis
    unfolding compute_features_from_tracks_def Let_def fst_conv map_of_append map_add_def t
    using assms by (simp add: map_of_median_entries)
qed

lemma set_unique_ordered: "set (unique_ordered seen gs) = set gs - set seen"
  by (induction gs arbitrary: seen) auto

lemma child_values_key:
  "child_values k children \<noteq> [] \<Longrightarrow> k \<in> set (concat (map (\<lambda>c. map fst (m_features c)) children))"
proof (induction children)
  case Nil
  then show ?case by (simp add: child_values_def present_def)
next
  case (Cons c cs)
  show ?case
  proof (cases "map_of (m_features c) k")
    case None
    then have "child_values k (c # cs) = child_values k cs"
      by (simp add: child_values_def)
    then show ?thesis using Cons by auto
  next
    case (Some v)
    from map_of_SomeD[OF Some] have "(k, v) \<in> set (m_features c)" .
    then have "k \<in> fst ` set (m_features c)" by force
    then show ?thesis by auto
  qed
qed

lemma aggregate_lookup:
  "map_of (fst (aggregate_features_from_children built_sub)) k =
     (if child_values k (map snd built_sub) = [] then None
      else Some (Some (sround (std_median (child_values k (map snd built_sub))))))"
  using child_values_key[of k "map snd built_sub"]
  by (auto simp: aggregate_features_from_children_def Let_def map_of_median_entries
      set_unique_ordered)

lemma map_of_default_entries:
  "map_of (map (\<lambda>k. (k, None)) (filter P ks)) k = (if k \<in> set ks \<and> P k then Some None else None)"
  by (induction ks) auto

lemma map_of_with_defaults:
  "map_of (with_defaults feat) k =
     (if feat = [] then None
      else case map_of feat k of Some v \<Rightarrow> Some v
           | None \<Rightarrow> if k \<in> set feature_keys then Some None else None)"
proof (cases "feat = []")
  case True
  then show ?thesis by (simp add: with_defaults_def)
next
  case False
  have d: "map_of (map (\<lambda>k. (k, None)) (filter (\<lambda>k. k \<notin> set (map fst feat)) feature_keys)) k
        = (if k \<in> set feature_keys \<and> k \<notin> set (map fst feat) then Some None else None)"
    by (simp add: map_of_default_entries)
  have n: "map_of feat k = None \<longleftrightarrow> k \<notin> set (map fst feat)"
    by (simp add: map_of_eq_None_iff)
  show ?thesis using False n
    by (auto simp: with_defaults_def map_of_append map_add_def map_of_default_entries
        split: option.splits)
qed

lemma build_manifest_subgenres:
  "map fst (m_subgenres (build_manifest res names (Node seed subs) path)) = map fst subs"
  by (simp add: Let_def comp_def)


lemma even_median:
  "xs \<noteq> [] \<Longrightarrow> even (length xs) \<Longrightarrow>
   median xs = Inr ((sort xs ! (length xs div 2 - 1) + sort xs ! (length xs div 2)) / 2)"
  by (simp add: median_nonempty std_median_def Let_def)

lemma build_manifest_features:
  "m_features (build_manifest res names (Node seed subs) path)
     = with_defaults (fst (node_summary (node_seeds res names seed path)
         (m_subgenres (build_manifest res names (Node seed subs) path))))"
  by (simp add: Let_def)

text \<open>
  C3 (as amended). For a node whose seed list is not empty and gives at least
  one feature value, each emitted feature field is the median of the
  non-null values of that field over the seeds, rounded to two decimals by
  \<open>sround\<close> (\<open>null\<close> when no seed has the field). For a node without a direct
  feature summary, with built children and a non-empty emitted feature
  object, each emitted key is the median, rounded to two decimals, of the
  values the children carry under that key; children lacking the key or
  holding \<open>null\<close> are skipped, not counted as zero. The median of an even
  number of values is the mean of the two middle order statistics.
\<close>

theorem feature_summary_medians:
  "(node_seeds res names seed path \<noteq> []
      \<and> fst (compute_features_from_tracks (node_seeds res names seed path)) \<noteq> []
      \<and> f \<in> set FEATURE_FIELDS \<longrightarrow>
    map_of (m_features (build_manifest res names (Node seed subs) path)) f =
      Some (if present (map (feature_of f) (node_seeds res names seed path)) = [] then None
            else Some (sround (std_median
                   (present (map (feature_of f) (node_seeds res names seed path)))))))
   \<and> ((node_seeds res' names' seed' path' = []
         \<or> fst (compute_features_from_tracks (node_seeds res' names' seed' path')) = [])
      \<and> subs' \<noteq> []
      \<and> m_features (build_manifest res' names' (Node seed' subs') path') \<noteq> []
      \<and> k \<in> set feature_keys \<longrightarrow>
    map_of (m_features (build_manifest res' names' (Node seed' subs') path')) k =
      Some (if child_values k
                 (map snd (m_subgenres (build_manifest res' names' (Node seed' subs') path'))) = []
            then None
            else Some (sround (std_median (child_values k
                   (map snd (m_subgenres (build_manifest res' names' (Node seed' subs') path'))))))))
   \<and> (xs \<noteq> [] \<and> even (length xs) \<longrightarrow>
        median xs = Inr ((sort xs ! (length xs div 2 - 1) + sort xs ! (length xs div 2)) / 2))"
proof (intro conjI impI)
  let ?S = "node_seeds res names seed path"
  assume a: "?S \<noteq> [] \<and> fst (compute_features_from_tracks ?S) \<noteq> [] \<and> f \<in> set FEATURE_FIELDS"
  then have s: "fst (node_summary ?S (m_subgenres (build_manifest res names (Node seed subs) path)))
        = fst (compute_features_from_tracks ?S)"
    by (auto simp: node_summary_def Let_def split: prod.splits)
  have fk: "f \<in> set feature_keys" using a by (simp add: feature_keys_def)
  show "map_of (m_features (build_manifest res names (Node seed subs) path)) f =
      Some (if present (map (feature_of f) ?S) = [] then None
            else Some (sround (std_median (present (map (feature_of f) ?S)))))"
    unfolding build_manifest_features s map_of_with_defaults
    using a fk by (simp add: compute_features_lookup)
next
  let ?S = "node_seeds res' names' seed' path'"
  let ?node = "build_manifest res' names' (Node seed' subs') path'"
  let ?sub = "m_subgenres ?node"
  assume b: "(?S = [] \<or> fst (compute_features_from_tracks ?S) = []) \<and> subs' \<noteq> []
      \<and> m_features ?node \<noteq> [] \<and> k \<in> set feature_keys"
  have ne: "?sub \<noteq> []" using b by (simp add: Let_def)
  have d: "fst (if ?S = [] then ([], None) else compute_features_from_tracks ?S) = []"
    using b by auto
  have s: "fst (node_summary ?S ?sub)
     = (if fst (aggregate_features_from_children ?sub) \<noteq> []
        then fst (aggregate_features_from_children ?sub) else [])"
    using d ne by (auto simp: node_summary_def Let_def split: prod.splits)
  have "with_defaults (fst (node_summary ?S ?sub)) \<noteq> []"
    using b build_manifest_features[of res' names' seed' subs' path'] by simp
  then have agg: "fst (aggregate_features_from_children ?sub) \<noteq> []"
    unfolding s by (auto simp: with_defaults_def split: if_splits)
  show "map_of (m_features ?node) k =
      Some (if child_values k (map snd ?sub) = [] then None
            else Some (sround (std_median (child_values k (map snd ?sub)))))"
    unfolding build_manifest_features s map_of_with_defaults
    using agg b by (simp add: aggregate_lookup)
next
  assume "xs \<noteq> [] \<and> even (length xs)"
  then show "median xs = Inr ((sort xs ! (length xs div 2 - 1) + sort xs ! (length xs div 2)) / 2)"
    by (simp add: even_median)
qed


lemma leaf_counter_value:
  "map_of (m_features (build_manifest [''rock'' \<mapsto> [seed_x]] Map.empty leaf_rock ''rock''))
     ''danceability'' = Some (Some (3 / 25))"
  by code_simp

lemma leaf_counter_median:
  "median (present (map (feature_of ''danceability'') [seed_x])) = Inr (123 / 1000)"
  by code_simp

text \<open>
  C3 as stated fails: a leaf whose only seed has danceability 0.123 emits
  0.12, not the median 0.123.
\<close>

theorem feature_summary_counterexample:
  "node_seeds [''rock'' \<mapsto> [seed_x]] Map.empty (seeds_key leaf_rock) ''rock'' = [seed_x]
   \<and> map_of (m_features (build_manifest [''rock'' \<mapsto> [seed_x]] Map.empty leaf_rock ''rock''))
       ''danceability'' = Some (Some (3 / 25))
   \<and> median (present (map (feature_of ''danceability'') [seed_x])) = Inr (123 / 1000)
   \<and> (3 / 25 :: real) \<noteq> 123 / 1000"
proof -
  have "node_seeds [''rock'' \<mapsto> [seed_x]] Map.empty (seeds_key leaf_rock) ''rock'' = [seed_x]"
    by (simp add: node_seeds_def leaf_rock_def results_get_def synthetic_def)
  moreover have "(3 / 25 :: real) \<noteq> 123 / 1000" by simp
  ultimately show ?thesis
    using leaf_counter_value leaf_counter_median by blast
qed


lemma leaf_seeds: "node_seeds res_leaf Map.empty (Some ''rock'') ''rock'' = [seed_x, seed_y]"
  by (simp add: node_seeds_def res_leaf_def results_get_def synthetic_def)

lemma leaf_direct: "fst (compute_features_from_tracks [seed_x, seed_y]) \<noteq> []"
  by code_simp

lemma leaf_value:
  "map_of (m_features (build_manifest res_leaf Map.empty (Node (Some ''rock'') []) ''rock''))
     ''danceability'' = Some (Some (31 / 100))"
  by code_simp

lemma parent_features:
  "m_features (build_manifest res_children Map.empty
      (Node None [(''a'', Node (Some ''a'') []), (''b'', Node (Some ''b'') []),
                  (''c'', Node (Some ''c'') [])]) ''rock'') \<noteq> []"
  by code_simp

lemma parent_value:
  "map_of (m_features (build_manifest res_children Map.empty
      (Node None [(''a'', Node (Some ''a'') []), (''b'', Node (Some ''b'') []),
                  (''c'', Node (Some ''c'') [])]) ''rock'')) ''danceability''
     = Some (Some (31 / 100))"
  by code_simp

lemma parent_child_values:
  "child_values ''danceability'' (map snd (m_subgenres (build_manifest res_children Map.empty
      (Node None [(''a'', Node (Some ''a'') []), (''b'', Node (Some ''b'') []),
                  (''c'', Node (Some ''c'') [])]) ''rock''))) = [3 / 25, 1 / 2]"
  by code_simp

theorem feature_summary_medians_witness:
  "node_seeds res_leaf Map.empty (Some ''rock'') ''rock'' \<noteq> []
   \<and> fst (compute_features_from_tracks (node_seeds res_leaf Map.empty (Some ''rock'') ''rock''))
       \<noteq> []
   \<and> ''danceability'' \<in> set FEATURE_FIELDS
   \<and> map_of (m_features (build_manifest res_leaf Map.empty (Node (Some ''rock'') []) ''rock''))
       ''danceability''
       = Some (Some (sround (std_median (present (map (feature_of ''danceability'')
           [seed_x, seed_y])))))
   \<and> node_seeds res_children Map.empty None ''rock'' = []
   \<and> [(''a'', Node (Some ''a'') []), (''b'', Node (Some ''b'') []), (''c'', Node (Some ''c'') [])]
       \<noteq> []
   \<and> m_features (build_manifest res_children Map.empty
        (Node None [(''a'', Node (Some ''a'') []), (''b'', Node (Some ''b'') []),
                    (''c'', Node (Some ''c'') [])]) ''rock'') \<noteq> []
   \<and> ''danceability'' \<in> set feature_keys
   \<and> map_of (m_features (build_manifest res_children Map.empty
        (Node None [(''a'', Node (Some ''a'') []), (''b'', Node (Some ''b'') []),
                    (''c'', Node (Some ''c'') [])]) ''rock'')) ''danceability''
       = Some (Some (sround (std_median [3 / 25, 1 / 2])))
   \<and> [1, 2, 3, 4 :: real] \<noteq> [] \<and> even (length [1, 2, 3, 4 :: real])
   \<and> median [1, 2, 3, 4] = Inr (5 / 2)"
proof -
  have f: "''danceability'' \<in> set FEATURE_FIELDS" by (simp add: FEATURE_FIELDS_def)
  have k: "''danceability'' \<in> set feature_keys" by (simp add: feature_keys_def FEATURE_FIELDS_def)
  have s: "node_seeds res_children Map.empty None ''rock'' = []" by (simp add: node_seeds_def)
  have p: "present (map (feature_of ''danceability'') [seed_x, seed_y]) \<noteq> []"
    by code_simp
  have m: "(sort [1, 2, 3, 4 :: real] ! (length [1, 2, 3, 4 :: real] div 2 - 1)
            + sort [1, 2, 3, 4 :: real] ! (length [1, 2, 3, 4 :: real] div 2)) / 2 = 5 / 2"
    by simp
  show ?thesis
    using feature_summary_medians [of res_leaf Map.empty "Some ''rock''" "''rock''"
        "''danceability''" "[]" res_children Map.empty None "''rock''"
        "[(''a'', Node (Some ''a'') []), (''b'', Node (Some ''b'') []),
          (''c'', Node (Some ''c'') [])]" "''danceability''" "[1, 2, 3, 4]"]
      f k s p m leaf_seeds leaf_direct parent_features parent_child_values
    by simp
qed


lemma median_sorted_v2_even: "median_sorted_v2 [1, 2, 3, 4] = Inr 2"
  by (simp add: median_sorted_v2_def)

section \<open>The rule table under relaxation\<close>

lemma thrash_first_passes: "passes_rules_v2 thrash_table ''thrash metal'' thrash_track_1"
  by code_simp

lemma thrash_second_rejected: "\<not> passes_rules_v2 thrash_table ''thrash metal'' thrash_track_2"
  by code_simp

lemma thrash_loop_candidates:
  "fst (candidate_loop_v2 Map.empty ''thrash metal'' '''' {} [thrash_track_1, thrash_track_2]
          ([], thrash_table)) = [thrash_track_1, thrash_track_2]"
  by code_simp

lemma thrash_loop_rule:
  "snd (candidate_loop_v2 Map.empty ''thrash metal'' '''' {} [thrash_track_1, thrash_track_2]
          ([], thrash_table)) ''thrash metal''
     = Some (thrash_rule\<lparr>popularity_max := None,
          require_artist_genres_any :=
            [''thrash metal'', ''bay area thrash'', ''crossover thrash'', ''teutonic thrash'',
             ''speed metal'', ''classic metal'', ''heavy metal'']\<rparr>)"
  by code_simp

text \<open>
  C9 fails on the code of v2.py: \<open>relax_rules_if_sparse\<close> updates the record
  stored in the table, not a copy. With the entry "thrash metal" (cap 85)
  and a bucket of two tracks, the first track is appended, the pool is
  sparse, and the cap is removed from the table; the second track, of
  popularity 90, which the configured rule rejects, is then admitted, and
  after the loop the table entry differs from the configured one.
\<close>

theorem relax_rules_mutates_table:
  "popularity_max (the (thrash_table ''thrash metal'')) = Some 85
   \<and> \<not> passes_rules_v2 thrash_table ''thrash metal'' thrash_track_2
   \<and> fst (candidate_loop_v2 Map.empty ''thrash metal'' '''' {} [thrash_track_1, thrash_track_2]
          ([], thrash_table)) = [thrash_track_1, thrash_track_2]
   \<and> popularity_max (the (snd (candidate_loop_v2 Map.empty ''thrash metal'' '''' {}
          [thrash_track_1, thrash_track_2] ([], thrash_table)) ''thrash metal'')) = None
   \<and> snd (candidate_loop_v2 Map.empty ''thrash metal'' '''' {} [thrash_track_1, thrash_track_2]
          ([], thrash_table)) ''thrash metal'' \<noteq> thrash_table ''thrash metal''"
proof -
  have a: "popularity_max (the (thrash_table ''thrash metal'')) = Some 85"
    by (simp add: thrash_table_def thrash_rule_def)
  have b: "popularity_max (the (snd (candidate_loop_v2 Map.empty ''thrash metal'' '''' {}
          [thrash_track_1, thrash_track_2] ([], thrash_table)) ''thrash metal'')) = None"
    unfolding thrash_loop_rule by simp
  have c: "snd (candidate_loop_v2 Map.empty ''thrash metal'' '''' {} [thrash_track_1, thrash_track_2]
          ([], thrash_table)) ''thrash metal'' \<noteq> thrash_table ''thrash metal''"
    using a b by (metis option.distinct(1))
  show ?thesis using a b c thrash_second_rejected thrash_loop_candidates by blast
qed

section \<open>Reproducibility of the selection\<close>


















end
